theory Spec2Isabelle
  imports Complex_Main "HOL-Library.Product_Lexorder" "HOL-Library.Multiset"
begin

section \<open>JavaScript values, strings and errors\<close>

text \<open>
  Identifiers (\<open>UUID\<close>) are JavaScript strings.  A thrown value is an object with an
  optional \<open>code\<close> and an optional \<open>message\<close>, which is all the code under study reads
  from it (\<open>error?.code\<close>, \<open>error.message?.includes(...)\<close>).
\<close>

type_synonym UUID = string

datatype js_error = JsError (err_code: "string option") (err_message: "string option")

text \<open>\<open>s.startsWith(p)\<close> and \<open>s.includes(p)\<close> on byte strings.\<close>

fun startsWith :: "string \<Rightarrow> string \<Rightarrow> bool" where
  "startsWith s [] = True"
| "startsWith [] (p # ps) = False"
| "startsWith (c # cs) (p # ps) = (c = p \<and> startsWith cs ps)"

fun str_includes :: "string \<Rightarrow> string \<Rightarrow> bool" where
  "str_includes [] p = (p = [])"
| "str_includes (c # cs) p = (startsWith (c # cs) p \<or> str_includes cs p)"

text \<open>
  Truthiness of the values the code tests: an optional boolean (\<open>metadata.isShared ? ...\<close>)
  and an optional string (\<open>if (!userId)\<close>, \<open>metadata.originalId || null\<close>); the empty
  string is falsy.
\<close>

definition truthy :: "bool option \<Rightarrow> bool" where
  "truthy b = (b = Some True)"

definition truthy_str :: "string option \<Rightarrow> bool" where
  "truthy_str s = (case s of None \<Rightarrow> False | Some x \<Rightarrow> x \<noteq> [])"

text \<open>
  Case folding.  Strings are byte strings (UTF-8).  SQLite's \<open>lower()\<close> and \<open>LIKE\<close> fold
  the 26 ASCII letters only.  JavaScript's \<open>toLowerCase\<close> folds those and also the letters
  beyond ASCII, each of which is several bytes here; what it does to them is the
  function \<open>u\<close>, which belongs to the JavaScript engine and is a parameter.  Lower-casing
  never produces an upper-case ASCII letter, so folding the ASCII letters after \<open>u\<close> is
  \<open>toLowerCase\<close>.
\<close>

definition ascii_lower :: "char \<Rightarrow> char" where
  "ascii_lower c =
     (if 65 \<le> (of_char c :: nat) \<and> (of_char c :: nat) \<le> 90
      then char_of ((of_char c :: nat) + 32) else c)"

definition sql_lower :: "string \<Rightarrow> string" where
  "sql_lower s = map ascii_lower s"

definition toLowerCase :: "(string \<Rightarrow> string) \<Rightarrow> string \<Rightarrow> string" where
  "toLowerCase u s = map ascii_lower (u s)"

text \<open>
  The SQL operator \<open>s LIKE p\<close>: \<open>%\<close> matches any sequence, \<open>_\<close> any one character, every
  other pattern character matches itself up to ASCII case.  The pattern is the first
  argument.
\<close>

fun sql_like :: "string \<Rightarrow> string \<Rightarrow> bool" where
  "sql_like [] s = (s = [])"
| "sql_like (p # ps) [] = (p = CHR ''%'' \<and> sql_like ps [])"
| "sql_like (p # ps) (c # cs) =
     (if p = CHR ''%'' then sql_like ps (c # cs) \<or> sql_like (p # ps) cs
      else (p = CHR ''_'' \<or> ascii_lower p = ascii_lower c) \<and> sql_like ps cs)"

section \<open>The knowledge table\<close>

text \<open>
  \<open>content\<close> is the serialized document \<open>{text, metadata}\<close>; the metadata keys are the ones
  the core reads.  A key that is absent (\<open>undefined\<close>) is \<open>None\<close>.
\<close>

record Metadata =
  md_source :: "string option"
  md_type :: "string option"
  md_isShared :: "bool option"
  md_isMain :: "bool option"
  md_isChunk :: "bool option"
  md_originalId :: "UUID option"
  md_chunkIndex :: "nat option"

record Content =
  c_text :: string
  c_metadata :: "Metadata option"

definition empty_metadata :: Metadata where
  "empty_metadata = \<lparr>md_source = None, md_type = None, md_isShared = None, md_isMain = None,
     md_isChunk = None, md_originalId = None, md_chunkIndex = None\<rparr>"

text \<open>\<open>knowledge.content.metadata || {}\<close>\<close>

definition metadata_of :: "Content \<Rightarrow> Metadata" where
  "metadata_of c = (case c_metadata c of None \<Rightarrow> empty_metadata | Some m \<Rightarrow> m)"

text \<open>The item handed to and returned by the adapter (\<open>RAGKnowledgeItem\<close>).\<close>

record RAGKnowledgeItem =
  k_id :: UUID
  k_agentId :: "UUID option"
  k_content :: Content
  k_embedding :: "real list option"
  k_createdAt :: "int option"
  k_similarity :: "real option"

text \<open>
  A row of \<open>knowledge\<close>: \<open>id TEXT PRIMARY KEY, agentId TEXT, content TEXT NOT NULL,
  embedding BLOB, createdAt INTEGER NOT NULL, isMain INTEGER, originalId TEXT,
  chunkIndex INTEGER, isShared INTEGER\<close>.  SQL \<open>NULL\<close> is \<open>None\<close>.  A table is the list of its
  rows in insertion order.
\<close>

record KnowledgeRow =
  r_id :: UUID
  r_agentId :: "UUID option"
  r_content :: Content
  r_embedding :: "real list option"
  r_createdAt :: int
  r_isMain :: int
  r_originalId :: "UUID option"
  r_chunkIndex :: "nat option"
  r_isShared :: int

type_synonym knowledge_table = "KnowledgeRow list"

text \<open>\<open>json_extract(content, '$.metadata.originalId')\<close> and its siblings.\<close>

definition json_originalId :: "KnowledgeRow \<Rightarrow> UUID option" where
  "json_originalId r = md_originalId (metadata_of (r_content r))"

definition json_isMain :: "KnowledgeRow \<Rightarrow> bool" where
  "json_isMain r = truthy (md_isMain (metadata_of (r_content r)))"

definition json_isChunk :: "KnowledgeRow \<Rightarrow> bool" where
  "json_isChunk r = truthy (md_isChunk (metadata_of (r_content r)))"

section \<open>Statements and transactions\<close>

text \<open>
  \<open>DELETE FROM knowledge WHERE w\<close> returns the number of rows it removed
  (\<open>result.changes\<close>).  Any statement may be refused by the engine: \<open>fails k\<close> is the error
  raised by the \<open>k\<close>-th statement of an operation, if any.  \<open>db.transaction(f)()\<close> commits
  what \<open>f\<close> did when \<open>f\<close> returns and restores the table when \<open>f\<close> throws, rethrowing.
\<close>

definition sql_delete :: "(KnowledgeRow \<Rightarrow> bool) \<Rightarrow> knowledge_table \<Rightarrow> nat \<times> knowledge_table" where
  "sql_delete w t = (length (filter w t), filter (\<lambda>r. \<not> w r) t)"

definition run_stmt :: "('k \<Rightarrow> js_error option) \<Rightarrow> 'k \<Rightarrow> 'a \<Rightarrow> js_error + 'a" where
  "run_stmt fails k x = (case fails k of Some e \<Rightarrow> Inl e | None \<Rightarrow> Inr x)"

definition transaction ::
  "('s \<Rightarrow> js_error + ('a \<times> 's)) \<Rightarrow> 's \<Rightarrow> (js_error + 'a) \<times> 's" where
  "transaction body t = (case body t of Inl e \<Rightarrow> (Inl e, t) | Inr (x, t') \<Rightarrow> (Inr x, t'))"

section \<open>Deleting knowledge\<close>




text \<open>
  The store of the multi-user adapter: the shared \<open>knowledge\<close> table of the main database
  and one \<open>knowledge\<close> table per attached partition name.  \<open>resolve\<close> is the outcome of
  \<open>getUserDatabase(userId)\<close>: the partition name, or the error it throws when the
  partition cannot be attached.
\<close>

record Store =
  main_knowledge :: knowledge_table
  user_knowledge :: "string \<Rightarrow> knowledge_table"

definition on_partition ::
  "string \<Rightarrow> (knowledge_table \<Rightarrow> (js_error + 'a) \<times> knowledge_table) \<Rightarrow> Store \<Rightarrow> (js_error + 'a) \<times> Store" where
  "on_partition dbName f st =
     (case f (user_knowledge st dbName) of
        (res, t') \<Rightarrow> (res, st\<lparr>user_knowledge := (user_knowledge st)(dbName := t')\<rparr>))"

definition on_main ::
  "(knowledge_table \<Rightarrow> (js_error + 'a) \<times> knowledge_table) \<Rightarrow> Store \<Rightarrow> (js_error + 'a) \<times> Store" where
  "on_main f st = (case f (main_knowledge st) of (res, t') \<Rightarrow> (res, st\<lparr>main_knowledge := t'\<rparr>))"

text \<open>
  \<open>executeUserQuery(userId, callback)\<close> of the multi-user adapter, preceded by the
  \<open>if (!userId)\<close> test every overriding method starts with: no user means the base
  method on the main database.
\<close>

definition executeUserQuery ::
  "(string \<Rightarrow> js_error + string) \<Rightarrow> UUID option
     \<Rightarrow> (knowledge_table \<Rightarrow> (js_error + 'a) \<times> knowledge_table) \<Rightarrow> Store \<Rightarrow> (js_error + 'a) \<times> Store" where
  "executeUserQuery resolve userId f st =
     (if \<not> truthy_str userId then on_main f st
      else (case resolve (the userId) of
              Inl e \<Rightarrow> (Inl e, st)
            | Inr dbName \<Rightarrow> on_partition dbName f st))"


section \<open>Clearing knowledge\<close>

text \<open>
  \<open>clearKnowledge(agentId, shared)\<close>: one \<open>DELETE\<close>, whose \<open>WHERE\<close> is \<open>agentId = ?\<close>, or
  \<open>(agentId = ? OR isShared = 1)\<close> when \<open>shared\<close> is set.  In SQL \<open>agentId = ?\<close> is not true
  of a row whose \<open>agentId\<close> is \<open>NULL\<close>.
\<close>

definition clearKnowledge ::
  "(nat \<Rightarrow> js_error option) \<Rightarrow> UUID \<Rightarrow> bool \<Rightarrow> knowledge_table \<Rightarrow> (js_error + unit) \<times> knowledge_table" where
  "clearKnowledge fails agentId shared t =
     (case run_stmt fails 0
             (sql_delete (if shared then (\<lambda>r. r_agentId r = Some agentId \<or> r_isShared r = 1)
                          else (\<lambda>r. r_agentId r = Some agentId)) t) of
        Inl e \<Rightarrow> (Inl e, t)
      | Inr (n, t') \<Rightarrow> (Inr (), t'))"

definition mu_clearKnowledge ::
  "(string \<Rightarrow> js_error + string) \<Rightarrow> (nat \<Rightarrow> js_error option) \<Rightarrow> UUID \<Rightarrow> bool \<Rightarrow> UUID option \<Rightarrow> Store
     \<Rightarrow> (js_error + unit) \<times> Store" where
  "mu_clearKnowledge resolve fails agentId shared userId st =
     executeUserQuery resolve userId (clearKnowledge fails agentId shared) st"

section \<open>Creating knowledge\<close>

text \<open>
  The primary-key violation as better-sqlite3 reports it: the code names the constraint,
  the message is SQLite's.
\<close>

definition pk_error :: js_error where
  "pk_error = JsError (Some ''SQLITE_CONSTRAINT_PRIMARYKEY'')
                      (Some ''UNIQUE constraint failed: knowledge.id'')"

definition sql_insert :: "KnowledgeRow \<Rightarrow> knowledge_table \<Rightarrow> js_error + (unit \<times> knowledge_table)" where
  "sql_insert r t = (if r_id r \<in> set (map r_id t) then Inl pk_error else Inr ((), t @ [r]))"

text \<open>
  The values \<open>createKnowledge\<close> binds to the \<open>INSERT\<close>, in the statement's column order.
  \<open>x || null\<close> turns a falsy \<open>x\<close> (an empty string, the number 0) into \<open>NULL\<close>;
  \<open>knowledge.createdAt || Date.now()\<close> replaces a missing or zero time by the clock's.
\<close>

definition knowledge_row :: "int \<Rightarrow> RAGKnowledgeItem \<Rightarrow> KnowledgeRow" where
  "knowledge_row now k =
     (let metadata = metadata_of (k_content k) in
      \<lparr>r_id = k_id k,
       r_agentId = (if truthy (md_isShared metadata) then None else k_agentId k),
       r_content = k_content k,
       r_embedding = k_embedding k,
       r_createdAt = (case k_createdAt k of None \<Rightarrow> now | Some c \<Rightarrow> if c = 0 then now else c),
       r_isMain = (if truthy (md_isMain metadata) then 1 else 0),
       r_originalId = (if truthy_str (md_originalId metadata) then md_originalId metadata else None),
       r_chunkIndex = (case md_chunkIndex metadata of None \<Rightarrow> None
                        | Some n \<Rightarrow> if n = 0 then None else Some n),
       r_isShared = (if truthy (md_isShared metadata) then 1 else 0)\<rparr>)"

text \<open>
  \<open>createKnowledge\<close> of the adapter.  In the \<open>catch\<close>: a shared item whose insert hit the
  primary key returns; a private item whose error message does not contain
  \<open>SQLITE_CONSTRAINT_PRIMARYKEY\<close> rethrows; everything else falls through to the debug
  line and returns.
\<close>

definition msg_includes :: "js_error \<Rightarrow> string \<Rightarrow> bool" where
  "msg_includes e s = (case err_message e of None \<Rightarrow> False | Some m \<Rightarrow> str_includes m s)"

definition createKnowledge ::
  "int \<Rightarrow> RAGKnowledgeItem \<Rightarrow> knowledge_table \<Rightarrow> (js_error + unit) \<times> knowledge_table" where
  "createKnowledge now k t =
     (case transaction (sql_insert (knowledge_row now k)) t of
        (Inr u, t') \<Rightarrow> (Inr (), t')
      | (Inl e, t') \<Rightarrow>
          (let isShared = truthy (md_isShared (metadata_of (k_content k)));
               isPrimaryKeyError = (err_code e = Some ''SQLITE_CONSTRAINT_PRIMARYKEY'')
           in if isShared \<and> isPrimaryKeyError then (Inr (), t')
              else if \<not> isShared \<and> \<not> msg_includes e ''SQLITE_CONSTRAINT_PRIMARYKEY''
                   then (Inl e, t')
              else (Inr (), t')))"


section \<open>Concrete rows\<close>

text \<open>A main item, one of its chunks and an unrelated item, for the concrete checks.\<close>

definition ex_main :: KnowledgeRow where
  "ex_main = \<lparr>r_id = ''m'', r_agentId = Some ''a'',
     r_content = \<lparr>c_text = ''foo bar'', c_metadata = Some (empty_metadata\<lparr>md_isMain := Some True\<rparr>)\<rparr>,
     r_embedding = None, r_createdAt = 1, r_isMain = 1, r_originalId = None,
     r_chunkIndex = None, r_isShared = 0\<rparr>"

definition ex_chunk :: KnowledgeRow where
  "ex_chunk = \<lparr>r_id = ''m-chunk-0'', r_agentId = Some ''a'',
     r_content = \<lparr>c_text = ''foo bar'', c_metadata = Some (empty_metadata
        \<lparr>md_isChunk := Some True, md_originalId := Some ''m'', md_chunkIndex := Some 0\<rparr>)\<rparr>,
     r_embedding = None, r_createdAt = 2, r_isMain = 0, r_originalId = Some ''m'',
     r_chunkIndex = None, r_isShared = 0\<rparr>"

definition ex_other :: KnowledgeRow where
  "ex_other = \<lparr>r_id = ''x'', r_agentId = None,
     r_content = \<lparr>c_text = ''baz'', c_metadata = Some (empty_metadata
        \<lparr>md_isShared := Some True, md_isMain := Some True\<rparr>)\<rparr>,
     r_embedding = None, r_createdAt = 3, r_isMain = 1, r_originalId = None,
     r_chunkIndex = None, r_isShared = 1\<rparr>"

section \<open>The shared-row invariant\<close>

text \<open>A row flagged shared (\<open>isShared = 1\<close>) has no owner (\<open>agentId IS NULL\<close>).\<close>

definition shared_inv :: "knowledge_table \<Rightarrow> bool" where
  "shared_inv t = list_all (\<lambda>r. r_isShared r = 1 \<longrightarrow> r_agentId r = None) t"

definition ex_shared_item :: RAGKnowledgeItem where
  "ex_shared_item = \<lparr>k_id = ''s'', k_agentId = Some ''a'',
     k_content = \<lparr>c_text = ''shared text'', c_metadata = Some (empty_metadata
        \<lparr>md_isShared := Some True, md_isMain := Some True\<rparr>)\<rparr>,
     k_embedding = None, k_createdAt = None, k_similarity = None\<rparr>"

text \<open>The row that item is stored as at time 5.\<close>

definition ex_shared_stored :: KnowledgeRow where
  "ex_shared_stored = \<lparr>r_id = ''s'', r_agentId = None,
     r_content = \<lparr>c_text = ''shared text'', c_metadata = Some (empty_metadata
        \<lparr>md_isShared := Some True, md_isMain := Some True\<rparr>)\<rparr>,
     r_embedding = None, r_createdAt = 5, r_isMain = 1, r_originalId = None,
     r_chunkIndex = None, r_isShared = 1\<rparr>"

section \<open>The knowledge manager: collaborators\<close>

text \<open>
  What the knowledge manager consumes and this repository does not define: the embedding
  call (which may throw), \<open>splitChunks\<close>, \<open>stringToUuid\<close>, the two \<open>KnowledgeScope\<close> strings,
  the regular-expression engine behind \<open>String.replace\<close>, and the lower-casing of the
  letters beyond ASCII in \<open>toLowerCase\<close> (\<open>env_lower\<close>).  They are fields of the
  environment, next to the runtime's \<open>agentId\<close> and \<open>currentUserId\<close>.  The thirteen
  \<open>replace\<close> calls of \<open>preprocess\<close> are named in the order the source applies them.
\<close>

datatype replace_step =
    CodeFence | InlineCode | Header | Image | Link | Url | Mention | HtmlTag
  | HorizontalRule | BlockComment | LineComment | Whitespace | BlankLines

record Env =
  agentId :: UUID
  currentUserId :: "UUID option"
  embed :: "string \<Rightarrow> js_error + real list"
  splitChunks :: "string \<Rightarrow> nat \<Rightarrow> nat \<Rightarrow> js_error + string list"
  stringToUuid :: "string \<Rightarrow> UUID"
  KnowledgeScope_SHARED :: string
  KnowledgeScope_PRIVATE :: string
  regex_replace :: "replace_step \<Rightarrow> string \<Rightarrow> string"
  env_lower :: "string \<Rightarrow> string"

section \<open>Preprocessing\<close>

text \<open>
  \<open>String.trim\<close> on the ASCII white space (tab, line feed, vertical tab, form feed,
  carriage return, space).
\<close>

definition is_space :: "char \<Rightarrow> bool" where
  "is_space c = ((9 \<le> (of_char c :: nat) \<and> (of_char c :: nat) \<le> 13) \<or> (of_char c :: nat) = 32)"

definition trim :: "string \<Rightarrow> string" where
  "trim s = rev (dropWhile is_space (rev (dropWhile is_space s)))"

text \<open>
  \<open>preprocess\<close>: the empty string is returned as it is (\<open>!content\<close>); otherwise the
  thirteen replacements in order, then \<open>trim\<close>, then \<open>toLowerCase\<close>.
\<close>

definition preprocess_steps :: "replace_step list" where
  "preprocess_steps = [CodeFence, InlineCode, Header, Image, Link, Url, Mention, HtmlTag,
     HorizontalRule, BlockComment, LineComment, Whitespace, BlankLines]"

definition preprocess ::
  "(string \<Rightarrow> string) \<Rightarrow> (replace_step \<Rightarrow> string \<Rightarrow> string) \<Rightarrow> string \<Rightarrow> string" where
  "preprocess u replace content =
     (if content = [] then []
      else toLowerCase u (trim (foldl (\<lambda>s step. replace step s) content preprocess_steps)))"

section \<open>Ingesting a file\<close>

record KnowledgeFile =
  f_path :: string
  f_content :: string
  f_type :: string
  f_isShared :: "bool option"
  f_userId :: "UUID option"

text \<open>Decimal rendering of an index, as the template literal \<open>`${index}`\<close> does.\<close>

definition digit_char :: "nat \<Rightarrow> char" where
  "digit_char d = ''0123456789'' ! d"

fun string_of_nat :: "nat \<Rightarrow> string" where
  "string_of_nat n =
     (if n < 10 then [digit_char n] else string_of_nat (n div 10) @ [digit_char (n mod 10)])"

declare string_of_nat.simps [simp del]

text \<open>\<open>file.path.replace(..., "/")\<close>: every backslash (code \<open>0x5C\<close>) becomes a slash.\<close>

definition cleanPath :: "string \<Rightarrow> string" where
  "cleanPath p = map (\<lambda>c. if c = CHR 0x5C then CHR ''/'' else c) p"

definition generateScopedId :: "Env \<Rightarrow> string \<Rightarrow> bool \<Rightarrow> UUID" where
  "generateScopedId env path isShared =
     (let scope = (if isShared then KnowledgeScope_SHARED env else KnowledgeScope_PRIVATE env);
          scopedPath = scope @ ''-'' @ path
      in stringToUuid env scopedPath)"

definition chunkId :: "UUID \<Rightarrow> nat \<Rightarrow> UUID" where
  "chunkId fileId index = fileId @ ''-chunk-'' @ string_of_nat index"

text \<open>The two items \<open>processFile\<close> hands to the adapter.\<close>

definition file_main_item ::
  "Env \<Rightarrow> int \<Rightarrow> KnowledgeFile \<Rightarrow> string \<Rightarrow> UUID \<Rightarrow> string \<Rightarrow> real list \<Rightarrow> RAGKnowledgeItem" where
  "file_main_item env now file cleanedPath fileId processedContent embedding =
     \<lparr>k_id = fileId, k_agentId = Some (agentId env),
      k_content = \<lparr>c_text = processedContent,
        c_metadata = Some \<lparr>md_source = Some cleanedPath, md_type = Some (f_type file),
          md_isShared = f_isShared file, md_isMain = Some True, md_isChunk = None,
          md_originalId = None, md_chunkIndex = None\<rparr>\<rparr>,
      k_embedding = Some embedding, k_createdAt = Some now, k_similarity = None\<rparr>"

definition file_chunk_item ::
  "Env \<Rightarrow> int \<Rightarrow> KnowledgeFile \<Rightarrow> string \<Rightarrow> UUID \<Rightarrow> nat \<Rightarrow> string \<Rightarrow> real list \<Rightarrow> RAGKnowledgeItem" where
  "file_chunk_item env now file cleanedPath fileId index chunk chunkEmbedding =
     \<lparr>k_id = chunkId fileId index, k_agentId = Some (agentId env),
      k_content = \<lparr>c_text = chunk,
        c_metadata = Some \<lparr>md_source = Some cleanedPath, md_type = Some (f_type file),
          md_isShared = f_isShared file, md_isMain = None, md_isChunk = Some True,
          md_originalId = Some fileId, md_chunkIndex = Some index\<rparr>\<rparr>,
      k_embedding = Some chunkEmbedding, k_createdAt = Some now, k_similarity = None\<rparr>"

text \<open>
  The loop over \<open>chunks.entries()\<close>: embed the chunk, store it, stop at the first throw.
  \<open>clock k\<close> is the reading of \<open>Date.now()\<close> for the \<open>k\<close>-th item of the run.  What was
  written before a throw stays written.
\<close>

fun store_chunks ::
  "Env \<Rightarrow> (nat \<Rightarrow> int) \<Rightarrow> KnowledgeFile \<Rightarrow> string \<Rightarrow> UUID \<Rightarrow> nat \<Rightarrow> string list \<Rightarrow> knowledge_table
     \<Rightarrow> (js_error + unit) \<times> knowledge_table" where
  "store_chunks env clock file cleanedPath fileId index [] t = (Inr (), t)"
| "store_chunks env clock file cleanedPath fileId index (chunk # chunks) t =
     (case embed env chunk of
        Inl e \<Rightarrow> (Inl e, t)
      | Inr chunkEmbedding \<Rightarrow>
          (case createKnowledge (clock (Suc index))
                  (file_chunk_item env (clock (Suc index)) file cleanedPath fileId index chunk
                     chunkEmbedding) t of
             (Inl e, t') \<Rightarrow> (Inl e, t')
           | (Inr u, t') \<Rightarrow> store_chunks env clock file cleanedPath fileId (Suc index) chunks t'))"

text \<open>
  The \<open>try\<close> block of \<open>processFile\<close>.  \<open>processedContent\<close> is \<open>file.content\<close>; the embedding
  call gets its first 8192 characters (\<open>slice(0, 8192)\<close>, bytes here).
\<close>

definition processFile_try ::
  "Env \<Rightarrow> (nat \<Rightarrow> int) \<Rightarrow> KnowledgeFile \<Rightarrow> knowledge_table \<Rightarrow> (js_error + unit) \<times> knowledge_table" where
  "processFile_try env clock file t =
     (let processedContent = f_content file in
      case embed env (take 8192 processedContent) of
        Inl e \<Rightarrow> (Inl e, t)
      | Inr embedding \<Rightarrow>
          (let cleanedPath = cleanPath (f_path file);
               fileId = generateScopedId env cleanedPath (truthy (f_isShared file))
           in case createKnowledge (clock 0)
                     (file_main_item env (clock 0) file cleanedPath fileId processedContent
                        embedding) t of
                (Inl e, t1) \<Rightarrow> (Inl e, t1)
              | (Inr u, t1) \<Rightarrow>
                  (case splitChunks env processedContent 512 20 of
                     Inl e \<Rightarrow> (Inl e, t1)
                   | Inr chunks \<Rightarrow>
                       store_chunks env clock file cleanedPath fileId 0 chunks t1)))"

text \<open>
  \<open>processFile\<close>: the \<open>catch\<close> returns when the file is shared and the error's code is
  the primary-key one, and rethrows otherwise.
\<close>

definition processFile ::
  "Env \<Rightarrow> (nat \<Rightarrow> int) \<Rightarrow> KnowledgeFile \<Rightarrow> knowledge_table \<Rightarrow> (js_error + unit) \<times> knowledge_table" where
  "processFile env clock file t =
     (case processFile_try env clock file t of
        (Inr u, t') \<Rightarrow> (Inr (), t')
      | (Inl e, t') \<Rightarrow>
          (if truthy (f_isShared file) \<and> err_code e = Some ''SQLITE_CONSTRAINT_PRIMARYKEY''
           then (Inr (), t') else (Inl e, t')))"

text \<open>The ids a file's ingestion writes: the main id, then one id per chunk.\<close>

definition file_id :: "Env \<Rightarrow> KnowledgeFile \<Rightarrow> UUID" where
  "file_id env file = generateScopedId env (cleanPath (f_path file)) (truthy (f_isShared file))"

definition chunk_ids :: "UUID \<Rightarrow> nat \<Rightarrow> nat \<Rightarrow> UUID list" where
  "chunk_ids fileId index n = map (chunkId fileId) [index..<index + n]"

text \<open>A call returned rather than threw.\<close>

definition is_ok :: "'e + 'a \<Rightarrow> bool" where
  "is_ok x = (case x of Inl e \<Rightarrow> False | Inr v \<Rightarrow> True)"

text \<open>Every embedding call of a file's ingestion succeeds.\<close>

definition embeds_ok :: "(string \<Rightarrow> js_error + real list) \<Rightarrow> KnowledgeFile \<Rightarrow> string list \<Rightarrow> bool" where
  "embeds_ok emb file chunks =
     (is_ok (emb (take 8192 (f_content file))) \<and> list_all (\<lambda>c. is_ok (emb c)) chunks)"

section \<open>A concrete environment and file\<close>

definition ex_env :: Env where
  "ex_env = \<lparr>agentId = ''a'', currentUserId = None,
     embed = (\<lambda>s. Inr [real (length s)]),
     splitChunks = (\<lambda>s n overlap. Inr [s]),
     stringToUuid = (\<lambda>s. s),
     KnowledgeScope_SHARED = ''shared'', KnowledgeScope_PRIVATE = ''private'',
     regex_replace = (\<lambda>step s. s), env_lower = (\<lambda>s. s)\<rparr>"

definition ex_file :: KnowledgeFile where
  "ex_file = \<lparr>f_path = ''a.md'', f_content = ''# Title'', f_type = ''md'',
     f_isShared = Some True, f_userId = None\<rparr>"

section \<open>Ingesting an item\<close>

text \<open>
  \<open>RAGKnowledgeManager.createKnowledge\<close>, the other ingestion path: it preprocesses the
  item's text, embeds the preprocessed text, stores the main item with the raw text, and
  chunks the preprocessed text.  An item without text is skipped with a warning; the
  \<open>catch\<close> logs and rethrows.
\<close>

fun store_item_chunks ::
  "Env \<Rightarrow> (nat \<Rightarrow> int) \<Rightarrow> RAGKnowledgeItem \<Rightarrow> nat \<Rightarrow> string list \<Rightarrow> knowledge_table
     \<Rightarrow> (js_error + unit) \<times> knowledge_table" where
  "store_item_chunks env clock item index [] t = (Inr (), t)"
| "store_item_chunks env clock item index (chunk # chunks) t =
     (case embed env chunk of
        Inl e \<Rightarrow> (Inl e, t)
      | Inr chunkEmbedding \<Rightarrow>
          (case createKnowledge (clock (Suc index))
                  \<lparr>k_id = chunkId (k_id item) index, k_agentId = Some (agentId env),
                   k_content = \<lparr>c_text = chunk,
                     c_metadata = Some ((metadata_of (k_content item))
                       \<lparr>md_isChunk := Some True, md_originalId := Some (k_id item),
                        md_chunkIndex := Some index\<rparr>)\<rparr>,
                   k_embedding = Some chunkEmbedding, k_createdAt = Some (clock (Suc index)),
                   k_similarity = None\<rparr> t of
             (Inl e, t') \<Rightarrow> (Inl e, t')
           | (Inr u, t') \<Rightarrow> store_item_chunks env clock item (Suc index) chunks t'))"

definition mgr_createKnowledge ::
  "Env \<Rightarrow> (nat \<Rightarrow> int) \<Rightarrow> RAGKnowledgeItem \<Rightarrow> knowledge_table \<Rightarrow> (js_error + unit) \<times> knowledge_table" where
  "mgr_createKnowledge env clock item t =
     (if c_text (k_content item) = [] then (Inr (), t)
      else
        (let processedContent = preprocess (env_lower env) (regex_replace env) (c_text (k_content item)) in
         case embed env processedContent of
           Inl e \<Rightarrow> (Inl e, t)
         | Inr mainEmbedding \<Rightarrow>
             (case createKnowledge (clock 0)
                     \<lparr>k_id = k_id item, k_agentId = Some (agentId env),
                      k_content = \<lparr>c_text = c_text (k_content item),
                        c_metadata = Some ((metadata_of (k_content item))\<lparr>md_isMain := Some True\<rparr>)\<rparr>,
                      k_embedding = Some mainEmbedding, k_createdAt = Some (clock 0),
                      k_similarity = None\<rparr> t of
                (Inl e, t1) \<Rightarrow> (Inl e, t1)
              | (Inr u, t1) \<Rightarrow>
                  (case splitChunks env processedContent 512 20 of
                     Inl e \<Rightarrow> (Inl e, t1)
                   | Inr chunks \<Rightarrow> store_item_chunks env clock item 0 chunks t1))))"

definition ex_item :: RAGKnowledgeItem where
  "ex_item = \<lparr>k_id = ''i'', k_agentId = Some ''a'',
     k_content = \<lparr>c_text = ''# Title'', c_metadata = None\<rparr>,
     k_embedding = None, k_createdAt = None, k_similarity = None\<rparr>"

section \<open>The store: knowledge, cache and the engine\<close>

text \<open>
  The main database as the search methods see it: the \<open>knowledge\<close> table and the \<open>cache\<close>
  table, whose primary key is \<open>(key, agentId)\<close>.

  The engine is what the adapter runs on.  It may or may not have the vector extension
  loaded: \<open>vec_distance_L2\<close> is \<open>None\<close> when the function is unknown to it, and then a
  statement that mentions the function is refused.  A loaded function answers a number or
  \<open>NULL\<close>, or raises, as the extension does on an argument it does not accept.
  \<open>blob_as_floats\<close> is \<open>new Float32Array(buffer)\<close> on the bytes of a stored vector, which
  makes one number of each byte.  \<open>eng_lower\<close> is the lower-casing of the letters beyond
  ASCII in \<open>toLowerCase\<close>.  \<open>JSON.stringify\<close> and \<open>JSON.parse\<close> of result lists belong to
  the engine as well; \<open>JSON.parse\<close> may throw.  Scores are real numbers: the rounding of
  doubles is not modelled.
\<close>

record Db =
  knowledge :: knowledge_table
  cache :: "string \<times> UUID \<Rightarrow> string option"

record Engine =
  vec_distance_L2 :: "(real list option \<Rightarrow> real list \<Rightarrow> js_error + real option) option"
  blob_as_floats :: "real list \<Rightarrow> real list"
  eng_lower :: "string \<Rightarrow> string"
  JSON_stringify :: "RAGKnowledgeItem list \<Rightarrow> string"
  JSON_parse :: "string \<Rightarrow> js_error + RAGKnowledgeItem list"

definition no_such_function :: js_error where
  "no_such_function = JsError (Some ''SQLITE_ERROR'') (Some ''no such function: vec_distance_L2'')"

text \<open>
  The statements of a search.  As in a deletion, each may be refused by the engine:
  \<open>fails s\<close> is the error statement \<open>s\<close> raises, if any.
\<close>

datatype search_stmt = GetCache | Hybrid | Fallback | SetCache

text \<open>\<open>getCache\<close> and \<open>setCache\<close> (\<open>INSERT OR REPLACE\<close>).\<close>

definition getCache :: "string \<Rightarrow> UUID \<Rightarrow> Db \<Rightarrow> string option" where
  "getCache key a db = cache db (key, a)"

definition setCache :: "string \<Rightarrow> UUID \<Rightarrow> string \<Rightarrow> Db \<Rightarrow> Db" where
  "setCache key a v db = db\<lparr>cache := (cache db)((key, a) := Some v)\<rparr>"

section \<open>Searching knowledge\<close>

record SearchParams =
  sp_agentId :: UUID
  sp_embedding :: "real list"
  sp_match_threshold :: real
  sp_match_count :: nat
  sp_searchText :: "string option"
  sp_userId :: "UUID option"

text \<open>The template literal \<open>`embedding_${params.agentId}_${params.searchText}`\<close>.\<close>

definition cacheKey :: "SearchParams \<Rightarrow> string" where
  "cacheKey p = ''embedding_'' @ sp_agentId p @ ''_''
                  @ (case sp_searchText p of None \<Rightarrow> ''undefined'' | Some s \<Rightarrow> s)"

text \<open>
  The hybrid statement.  \<open>AND\<close> binds tighter than \<open>OR\<close>, so its three \<open>WHERE\<close> clauses read
  \<open>(agentId IS NULL AND isShared = 1) OR (agentId = ? AND ...)\<close>.  In particular the
  \<open>vector_scores\<close> clause takes a shared row whether or not it has an embedding.
\<close>

definition is_shared_row :: "KnowledgeRow \<Rightarrow> bool" where
  "is_shared_row r = (r_agentId r = None \<and> r_isShared r = 1)"

definition in_vector_scores :: "UUID \<Rightarrow> KnowledgeRow \<Rightarrow> bool" where
  "in_vector_scores a r = (is_shared_row r \<or> (r_agentId r = Some a \<and> r_embedding r \<noteq> None))"

definition vector_score ::
  "(real list option \<Rightarrow> real list \<Rightarrow> real option) \<Rightarrow> real list \<Rightarrow> KnowledgeRow \<Rightarrow> real option" where
  "vector_score vdist q r =
     (case vdist (r_embedding r) q of
        None \<Rightarrow> None
      | Some d \<Rightarrow> if 1 + d = 0 then None else Some (1 / (1 + d)))"

text \<open>
  The pattern is built in JavaScript (\<open>params.searchText?.toLowerCase() || ""\<close>), the
  text is folded by SQL's \<open>lower()\<close>.
\<close>

definition like_pattern :: "(string \<Rightarrow> string) \<Rightarrow> string option \<Rightarrow> string" where
  "like_pattern u searchText =
     ''%'' @ (case searchText of None \<Rightarrow> [] | Some s \<Rightarrow> toLowerCase u s) @ ''%''"

definition keyword_score :: "(string \<Rightarrow> string) \<Rightarrow> string option \<Rightarrow> KnowledgeRow \<Rightarrow> real" where
  "keyword_score u searchText r =
     (if sql_like (like_pattern u searchText) (sql_lower (c_text (r_content r))) then 3 else 1)
     * (if json_isChunk r then 3 / 2 else if json_isMain r then 6 / 5 else 1)"

text \<open>A comparison with \<open>NULL\<close> is not true.\<close>

definition sql_ge :: "real option \<Rightarrow> real \<Rightarrow> bool" where
  "sql_ge v x = (case v of None \<Rightarrow> False | Some y \<Rightarrow> y \<ge> x)"

definition hybrid_where ::
  "(real list option \<Rightarrow> real list \<Rightarrow> real option) \<Rightarrow> (string \<Rightarrow> string) \<Rightarrow> SearchParams
     \<Rightarrow> KnowledgeRow \<Rightarrow> bool" where
  "hybrid_where vdist u p r =
     (is_shared_row r
      \<or> (r_agentId r = Some (sp_agentId p)
          \<and> (sql_ge (vector_score vdist (sp_embedding p) r) (sp_match_threshold p)
              \<or> (keyword_score u (sp_searchText p) r > 1
                  \<and> sql_ge (vector_score vdist (sp_embedding p) r) (3 / 10)))))"

definition combined_score ::
  "(real list option \<Rightarrow> real list \<Rightarrow> real option) \<Rightarrow> (string \<Rightarrow> string) \<Rightarrow> SearchParams
     \<Rightarrow> KnowledgeRow \<Rightarrow> real option" where
  "combined_score vdist u p r =
     map_option (\<lambda>v. v * keyword_score u (sp_searchText p) r) (vector_score vdist (sp_embedding p) r)"

text \<open>
  \<open>ORDER BY combined_score DESC LIMIT ?\<close>: the rows with a score by falling score, then
  the rows whose score is \<open>NULL\<close>.
\<close>

definition order_by_score_desc :: "(KnowledgeRow \<Rightarrow> real option) \<Rightarrow> KnowledgeRow list \<Rightarrow> KnowledgeRow list" where
  "order_by_score_desc score rs =
     sort_key (\<lambda>r. - the (score r)) (filter (\<lambda>r. score r \<noteq> None) rs)
     @ filter (\<lambda>r. score r = None) rs"

definition hybrid_rows ::
  "(real list option \<Rightarrow> real list \<Rightarrow> real option) \<Rightarrow> (string \<Rightarrow> string) \<Rightarrow> SearchParams
     \<Rightarrow> knowledge_table \<Rightarrow> KnowledgeRow list" where
  "hybrid_rows vdist u p t =
     take (sp_match_count p)
       (order_by_score_desc (combined_score vdist u p)
          (filter (\<lambda>r. in_vector_scores (sp_agentId p) r \<and> hybrid_where vdist u p r) t))"

text \<open>
  The item made of a returned row: \<open>content\<close> parsed back, the embedding read by
  \<open>new Float32Array(row.embedding)\<close> when the column is not \<open>NULL\<close>, and the similarity
  the statement computed, if it computed one.
\<close>

definition row_item :: "Engine \<Rightarrow> real option \<Rightarrow> KnowledgeRow \<Rightarrow> RAGKnowledgeItem" where
  "row_item eng sim r = \<lparr>k_id = r_id r, k_agentId = r_agentId r, k_content = r_content r,
     k_embedding = map_option (blob_as_floats eng) (r_embedding r),
     k_createdAt = Some (r_createdAt r), k_similarity = sim\<rparr>"

text \<open>
  The fallback statement: \<open>WHERE (agentId = ? OR isShared = 1)\<close>, the \<open>LIKE\<close> on the text
  when a search text was given, \<open>ORDER BY (main ? 2 : 1) DESC, createdAt DESC LIMIT ?\<close>.
\<close>

definition fallback_where :: "(string \<Rightarrow> string) \<Rightarrow> SearchParams \<Rightarrow> KnowledgeRow \<Rightarrow> bool" where
  "fallback_where u p r =
     ((r_agentId r = Some (sp_agentId p) \<or> r_isShared r = 1)
      \<and> (truthy_str (sp_searchText p) \<longrightarrow>
            sql_like (''%'' @ toLowerCase u (the (sp_searchText p)) @ ''%'') (c_text (r_content r))))"

definition fallback_key :: "KnowledgeRow \<Rightarrow> int \<times> int" where
  "fallback_key r = (- (if json_isMain r then 2 else 1), - r_createdAt r)"

definition fallback_rows :: "(string \<Rightarrow> string) \<Rightarrow> SearchParams \<Rightarrow> knowledge_table \<Rightarrow> KnowledgeRow list" where
  "fallback_rows u p t =
     take (sp_match_count p) (sort_key fallback_key (filter (fallback_where u p) t))"

text \<open>The first error of a list of outcomes, and a raising function with its errors dropped.\<close>

fun first_error :: "(js_error + 'a) list \<Rightarrow> js_error option" where
  "first_error [] = None"
| "first_error (x # xs) = (case x of Inl e \<Rightarrow> Some e | Inr v \<Rightarrow> first_error xs)"

definition total_distance ::
  "(real list option \<Rightarrow> real list \<Rightarrow> js_error + real option)
     \<Rightarrow> real list option \<Rightarrow> real list \<Rightarrow> real option" where
  "total_distance vd e q = (case vd e q of Inl err \<Rightarrow> None | Inr d \<Rightarrow> d)"

text \<open>
  The hybrid statement as the engine runs it.  It is refused when the extension is
  missing or when the engine refuses it; it raises when the distance function raises on a
  row of the \<open>vector_scores\<close> clause.  Otherwise it yields its rows, each with its
  \<open>combined_score\<close>.
\<close>

definition run_hybrid ::
  "Engine \<Rightarrow> (search_stmt \<Rightarrow> js_error option) \<Rightarrow> SearchParams \<Rightarrow> knowledge_table
     \<Rightarrow> js_error + (KnowledgeRow \<times> real option) list" where
  "run_hybrid eng fails p t =
     (case vec_distance_L2 eng of
        None \<Rightarrow> Inl no_such_function
      | Some vd \<Rightarrow>
          (case fails Hybrid of
             Some e \<Rightarrow> Inl e
           | None \<Rightarrow>
               (case first_error (map (\<lambda>r. vd (r_embedding r) (sp_embedding p))
                                   (filter (in_vector_scores (sp_agentId p)) t)) of
                  Some e \<Rightarrow> Inl e
                | None \<Rightarrow>
                    Inr (map (\<lambda>r. (r, combined_score (total_distance vd) (eng_lower eng) p r))
                           (hybrid_rows (total_distance vd) (eng_lower eng) p t)))))"

text \<open>
  The \<open>try\<close> block of \<open>searchKnowledge\<close>: the hybrid statement, the items, the cache
  write.
\<close>

definition hybrid_attempt ::
  "Engine \<Rightarrow> (search_stmt \<Rightarrow> js_error option) \<Rightarrow> SearchParams \<Rightarrow> Db
     \<Rightarrow> (js_error + RAGKnowledgeItem list) \<times> Db" where
  "hybrid_attempt eng fails p db =
     (case run_hybrid eng fails p (knowledge db) of
        Inl e \<Rightarrow> (Inl e, db)
      | Inr scored \<Rightarrow>
          (let results = map (\<lambda>(r, s). row_item eng s r) scored in
           case run_stmt fails SetCache
                  (setCache (cacheKey p) (sp_agentId p) (JSON_stringify eng results) db) of
             Inl e \<Rightarrow> (Inl e, db)
           | Inr db' \<Rightarrow> (Inr results, db')))"

text \<open>
  The branch of the \<open>catch\<close> taken for the missing function: the fallback statement, the
  items (without a similarity), the cache write.  Nothing guards it: what it raises
  leaves \<open>searchKnowledge\<close>.
\<close>

definition fallback_attempt ::
  "Engine \<Rightarrow> (search_stmt \<Rightarrow> js_error option) \<Rightarrow> SearchParams \<Rightarrow> Db
     \<Rightarrow> (js_error + RAGKnowledgeItem list) \<times> Db" where
  "fallback_attempt eng fails p db =
     (case run_stmt fails Fallback (fallback_rows (eng_lower eng) p (knowledge db)) of
        Inl e \<Rightarrow> (Inl e, db)
      | Inr rs \<Rightarrow>
          (let results = map (row_item eng None) rs in
           case run_stmt fails SetCache
                  (setCache (cacheKey p) (sp_agentId p) (JSON_stringify eng results) db) of
             Inl e \<Rightarrow> (Inl e, db)
           | Inr db' \<Rightarrow> (Inr results, db')))"

text \<open>
  \<open>searchKnowledge\<close> of the adapter.  The cache is read first, outside the \<open>try\<close>; a truthy
  cached value is parsed and returned.  Otherwise the \<open>try\<close> block runs.  When it throws
  with a message containing \<open>no such function: vec_distance_L2\<close> the fallback runs; any
  other error is logged and the empty list returned, and nothing is cached.
\<close>

definition searchKnowledge ::
  "Engine \<Rightarrow> (search_stmt \<Rightarrow> js_error option) \<Rightarrow> SearchParams \<Rightarrow> Db
     \<Rightarrow> (js_error + RAGKnowledgeItem list) \<times> Db" where
  "searchKnowledge eng fails p db =
     (case run_stmt fails GetCache (getCache (cacheKey p) (sp_agentId p) db) of
        Inl e \<Rightarrow> (Inl e, db)
      | Inr cachedResult \<Rightarrow>
          if truthy_str cachedResult then (JSON_parse eng (the cachedResult), db)
          else
            (case hybrid_attempt eng fails p db of
               (Inr results, db') \<Rightarrow> (Inr results, db')
             | (Inl error, db') \<Rightarrow>
                 (if msg_includes error ''no such function: vec_distance_L2''
                  then fallback_attempt eng fails p db'
                  else (Inr [], db'))))"

text \<open>
  The candidate condition in the specification's words: vector similarity at least the
  match threshold, or a keyword score above 1.0 together with vector similarity at least
  0.3.
\<close>

definition spec_candidate_ok ::
  "(real list option \<Rightarrow> real list \<Rightarrow> real option) \<Rightarrow> (string \<Rightarrow> string) \<Rightarrow> SearchParams
     \<Rightarrow> KnowledgeRow \<Rightarrow> bool" where
  "spec_candidate_ok vdist u p r =
     (sql_ge (vector_score vdist (sp_embedding p) r) (sp_match_threshold p)
      \<or> (keyword_score u (sp_searchText p) r > 1
          \<and> sql_ge (vector_score vdist (sp_embedding p) r) (3 / 10)))"

section \<open>A concrete store and engine\<close>

text \<open>
  One-dimensional embeddings, whose distance is the absolute difference; like the
  extension, the function raises on a \<open>NULL\<close> vector.  A stored number is read back as four
  numbers.  Nothing beyond ASCII is folded.
\<close>

definition ex_dist :: "real list option \<Rightarrow> real list \<Rightarrow> real option" where
  "ex_dist e q = (case (e, q) of (Some [x], [y]) \<Rightarrow> Some \<bar>x - y\<bar> | _ \<Rightarrow> None)"

definition ex_vec :: "real list option \<Rightarrow> real list \<Rightarrow> js_error + real option" where
  "ex_vec e q =
     (case e of
        None \<Rightarrow> Inl (JsError (Some ''SQLITE_ERROR'') (Some ''vector is NULL''))
      | Some v \<Rightarrow> Inr (ex_dist (Some v) q))"

definition ex_blob :: "real list \<Rightarrow> real list" where
  "ex_blob v = concat (map (\<lambda>x. [0, 0, 0, x]) v)"

definition ex_stringify :: "RAGKnowledgeItem list \<Rightarrow> string" where
  "ex_stringify rs = ''['' @ concat (map k_id rs) @ '']''"

definition ex_engine :: Engine where
  "ex_engine = \<lparr>vec_distance_L2 = Some ex_vec, blob_as_floats = ex_blob,
     eng_lower = (\<lambda>s. s), JSON_stringify = ex_stringify, JSON_parse = (\<lambda>s. Inr [])\<rparr>"


definition no_refusal :: "search_stmt \<Rightarrow> js_error option" where
  "no_refusal s = None"

definition ex_far :: KnowledgeRow where
  "ex_far = \<lparr>r_id = ''s'', r_agentId = None,
     r_content = \<lparr>c_text = ''baz'', c_metadata = Some (empty_metadata
        \<lparr>md_isShared := Some True, md_isMain := Some True\<rparr>)\<rparr>,
     r_embedding = Some [9], r_createdAt = 3, r_isMain = 1, r_originalId = None,
     r_chunkIndex = None, r_isShared = 1\<rparr>"

definition ex_recent :: KnowledgeRow where
  "ex_recent = \<lparr>r_id = ''n'', r_agentId = Some ''a'',
     r_content = \<lparr>c_text = ''Foo again'', c_metadata = Some (empty_metadata\<lparr>md_isMain := Some True\<rparr>)\<rparr>,
     r_embedding = Some [2], r_createdAt = 5, r_isMain = 1, r_originalId = None,
     r_chunkIndex = None, r_isShared = 0\<rparr>"

definition ex_foreign :: KnowledgeRow where
  "ex_foreign = \<lparr>r_id = ''f'', r_agentId = Some ''b'',
     r_content = \<lparr>c_text = ''foo of b'', c_metadata = Some (empty_metadata\<lparr>md_isMain := Some True\<rparr>)\<rparr>,
     r_embedding = Some [1], r_createdAt = 9, r_isMain = 1, r_originalId = None,
     r_chunkIndex = None, r_isShared = 0\<rparr>"

definition ex_params :: SearchParams where
  "ex_params = \<lparr>sp_agentId = ''a'', sp_embedding = [0], sp_match_threshold = 17 / 20,
     sp_match_count = 16, sp_searchText = Some ''zebra'', sp_userId = None\<rparr>"


definition ex_db :: Db where
  "ex_db = \<lparr>knowledge = [ex_chunk, ex_main, ex_other, ex_recent, ex_foreign],
            cache = (\<lambda>k. None)\<rparr>"



section \<open>Memories\<close>

text \<open>
  A row of \<open>memories\<close>: \<open>id TEXT PRIMARY KEY, type, content, embedding BLOB, userId,
  roomId, agentId, "unique" INTEGER, createdAt\<close>.  The content is the serialized payload,
  which no statement here looks into.
\<close>

record MemoryRow =
  m_id :: UUID
  m_type :: string
  m_content :: string
  m_embedding :: "real list option"
  m_userId :: "UUID option"
  m_roomId :: "UUID option"
  m_agentId :: "UUID option"
  m_unique :: int
  m_createdAt :: int

record Memory =
  mem_id :: "UUID option"
  mem_content :: string
  mem_embedding :: "real list option"
  mem_userId :: UUID
  mem_roomId :: UUID
  mem_agentId :: UUID
  mem_createdAt :: "int option"

record MemorySearchParams =
  mp_match_threshold :: "real option"
  mp_count :: "nat option"
  mp_roomId :: "UUID option"
  mp_agentId :: UUID
  mp_unique :: "bool option"
  mp_tableName :: string

text \<open>
  The \<open>WHERE\<close> clause both statements of \<open>searchMemoriesByEmbedding\<close> build:
  \<open>embedding IS NOT NULL AND type = ? AND agentId = ?\<close>, then \<open>AND "unique" = 1\<close> and
  \<open>AND roomId = ?\<close> when the parameters are truthy.  \<open>match_threshold\<close> is not part of it.
\<close>

definition memory_where :: "MemorySearchParams \<Rightarrow> MemoryRow \<Rightarrow> bool" where
  "memory_where params m =
     (m_embedding m \<noteq> None \<and> m_type m = mp_tableName params
      \<and> m_agentId m = Some (mp_agentId params)
      \<and> (truthy (mp_unique params) \<longrightarrow> m_unique m = 1)
      \<and> (truthy_str (mp_roomId params) \<longrightarrow> m_roomId m = mp_roomId params))"

text \<open>A truthy count: \<open>if (params.count)\<close>, \<open>params.count || 10\<close>.\<close>

definition truthy_nat :: "nat option \<Rightarrow> bool" where
  "truthy_nat n = (case n of None \<Rightarrow> False | Some k \<Rightarrow> k \<noteq> 0)"

text \<open>
  \<open>BaseSqliteAdapter.searchMemoriesByEmbedding\<close>.  The first statement orders by the
  distance, named \<open>similarity\<close>, descending, with \<open>NULL\<close> last, and is limited only when
  \<open>count\<close> is truthy; it raises when the distance function raises on a selected row.  When the engine refuses it for want of \<open>vec_distance_L2\<close>, the second
  orders by \<open>createdAt DESC\<close> with \<open>LIMIT (count || 10)\<close>; any other error is rethrown.
\<close>

definition memory_order_desc :: "(MemoryRow \<Rightarrow> real option) \<Rightarrow> MemoryRow list \<Rightarrow> MemoryRow list" where
  "memory_order_desc score ms =
     sort_key (\<lambda>m. - the (score m)) (filter (\<lambda>m. score m \<noteq> None) ms)
     @ filter (\<lambda>m. score m = None) ms"

definition searchMemoriesByEmbedding ::
  "Engine \<Rightarrow> real list \<Rightarrow> MemorySearchParams \<Rightarrow> MemoryRow list \<Rightarrow> js_error + MemoryRow list" where
  "searchMemoriesByEmbedding eng embedding params t =
     (case (case vec_distance_L2 eng of
              None \<Rightarrow> Inl no_such_function
            | Some vd \<Rightarrow>
                (case first_error (map (\<lambda>m. vd (m_embedding m) embedding)
                                    (filter (memory_where params) t)) of
                   Some e \<Rightarrow> Inl e
                 | None \<Rightarrow>
                     (let ms = memory_order_desc (\<lambda>m. total_distance vd (m_embedding m) embedding)
                                 (filter (memory_where params) t)
                      in Inr (if truthy_nat (mp_count params) then take (the (mp_count params)) ms
                              else ms)))) of
        Inr memories \<Rightarrow> Inr memories
      | Inl error \<Rightarrow>
          (if msg_includes error ''no such function: vec_distance_L2'' then
             Inr (take (if truthy_nat (mp_count params) then the (mp_count params) else 10)
                    (sort_key (\<lambda>m. - m_createdAt m) (filter (memory_where params) t)))
           else Inl error))"

text \<open>\<open>INSERT OR REPLACE INTO memories\<close>: a row with the same id is replaced.\<close>

definition insert_or_replace :: "MemoryRow \<Rightarrow> MemoryRow list \<Rightarrow> MemoryRow list" where
  "insert_or_replace m t = filter (\<lambda>x. m_id x \<noteq> m_id m) t @ [m]"

text \<open>
  \<open>BaseSqliteAdapter.createMemory\<close>.  With an embedding (an empty array is truthy too) it
  asks \<open>searchMemoriesByEmbedding\<close> for one row, passing \<open>match_threshold: 0.95\<close>, and sets
  \<open>isUnique\<close> to whether none came back.  A missing or empty embedding is stored as 384
  zeros; a missing id is drawn from \<open>v4()\<close>, a missing time from the clock.  (Called on the
  multi-user adapter, the search goes through its override, which without a \<open>userId\<close>
  calls this one with an empty agent id replaced by the default.)
\<close>

definition createMemory ::
  "Engine \<Rightarrow> int \<Rightarrow> UUID \<Rightarrow> Memory \<Rightarrow> string \<Rightarrow> MemoryRow list \<Rightarrow> (js_error + unit) \<times> MemoryRow list" where
  "createMemory eng now v4 memory tableName t =
     (case (case mem_embedding memory of
              None \<Rightarrow> Inr True
            | Some embedding \<Rightarrow>
                (case searchMemoriesByEmbedding eng embedding
                        \<lparr>mp_match_threshold = Some (95 / 100), mp_count = Some 1,
                         mp_roomId = Some (mem_roomId memory), mp_agentId = mem_agentId memory,
                         mp_unique = None, mp_tableName = tableName\<rparr> t of
                   Inl e \<Rightarrow> Inl e
                 | Inr similarMemories \<Rightarrow> Inr (length similarMemories = 0))) of
        Inl e \<Rightarrow> (Inl e, t)
      | Inr isUnique \<Rightarrow>
          (let createdAt = (case mem_createdAt memory of None \<Rightarrow> now | Some c \<Rightarrow> c);
               embeddingValue = (case mem_embedding memory of
                                   None \<Rightarrow> replicate 384 0
                                 | Some e \<Rightarrow> if length e > 0 then e else replicate 384 0)
           in (Inr (), insert_or_replace
                 \<lparr>m_id = (case mem_id memory of None \<Rightarrow> v4 | Some i \<Rightarrow> i),
                  m_type = tableName, m_content = mem_content memory,
                  m_embedding = Some embeddingValue, m_userId = Some (mem_userId memory),
                  m_roomId = Some (mem_roomId memory), m_agentId = Some (mem_agentId memory),
                  m_unique = (if isUnique then 1 else 0), m_createdAt = createdAt\<rparr> t)))"

definition ex_stored_memory :: MemoryRow where
  "ex_stored_memory = \<lparr>m_id = ''m1'', m_type = ''messages'', m_content = ''hello'',
     m_embedding = Some [1, 0], m_userId = Some ''u'', m_roomId = Some ''r'',
     m_agentId = Some ''a'', m_unique = 1, m_createdAt = 1\<rparr>"

definition ex_new_memory :: Memory where
  "ex_new_memory = \<lparr>mem_id = Some ''m2'', mem_content = ''goodbye'',
     mem_embedding = Some [0, 1], mem_userId = ''u'', mem_roomId = ''r'',
     mem_agentId = ''a'', mem_createdAt = Some 2\<rparr>"

section \<open>The knowledge manager: retrieval\<close>

text \<open>
  The manager reaches the store through \<open>runtime.databaseAdapter\<close>, an interface: each
  call takes the store's state, may throw, and returns the new state.
\<close>

record AdapterGetParams =
  g_id :: "UUID option"
  g_agentId :: UUID
  g_userId :: "UUID option"

record 's Adapter =
  db_getKnowledge :: "AdapterGetParams \<Rightarrow> 's \<Rightarrow> (js_error + RAGKnowledgeItem list) \<times> 's"
  db_searchKnowledge :: "SearchParams \<Rightarrow> 's \<Rightarrow> (js_error + RAGKnowledgeItem list) \<times> 's"

record GetKnowledgeParams =
  gp_query :: "string option"
  gp_id :: "UUID option"
  gp_conversationContext :: "string option"
  gp_limit :: "nat option"
  gp_agentId :: "UUID option"
  gp_userId :: "UUID option"

definition defaultRAGMatchThreshold :: real where
  "defaultRAGMatchThreshold = 85 / 100"

definition defaultRAGMatchCount :: nat where
  "defaultRAGMatchCount = 8"

definition stopWords :: "string list" where
  "stopWords = [''a'', ''an'', ''and'', ''are'', ''as'', ''at'', ''be'', ''by'', ''does'', ''for'',
     ''from'', ''had'', ''has'', ''have'', ''he'', ''her'', ''his'', ''how'', ''hey'', ''i'', ''in'',
     ''is'', ''it'', ''its'', ''of'', ''on'', ''or'', ''that'', ''the'', ''this'', ''to'', ''was'',
     ''what'', ''when'', ''where'', ''which'', ''who'', ''will'', ''with'', ''would'', ''there'',
     ''their'', ''they'', ''your'', ''you'']"

text \<open>\<open>s.split(" ")\<close>: the pieces between single spaces; the empty string has one piece.\<close>

fun split_space :: "string \<Rightarrow> string list" where
  "split_space [] = [[]]"
| "split_space (c # cs) =
     (if c = CHR '' '' then [] # split_space cs
      else (case split_space cs of [] \<Rightarrow> [[c]] | w # ws \<Rightarrow> (c # w) # ws))"

definition getQueryTerms :: "(string \<Rightarrow> string) \<Rightarrow> string \<Rightarrow> string list" where
  "getQueryTerms u query =
     filter (\<lambda>term. term \<notin> set stopWords)
       (filter (\<lambda>term. length term > 2) (split_space (toLowerCase u query)))"

text \<open>
  \<open>hasProximityMatch\<close>: the positions of the words that contain some term, sorted; true
  when two neighbours in that list are at most 5 apart.
\<close>

fun neighbours_within :: "nat list \<Rightarrow> bool" where
  "neighbours_within (x # y # ys) = (\<bar>int x - int y\<bar> \<le> 5 \<or> neighbours_within (y # ys))"
| "neighbours_within ys = False"

definition hasProximityMatch :: "(string \<Rightarrow> string) \<Rightarrow> string \<Rightarrow> string list \<Rightarrow> bool" where
  "hasProximityMatch u text terms =
     (if text = [] \<or> terms = [] then False
      else
        (let wordList = filter (\<lambda>w. length w > 0) (split_space (toLowerCase u text));
             allPositions = sort (concat (map (\<lambda>term.
                 filter (\<lambda>idx. str_includes (wordList ! idx) term) [0..<length wordList]) terms))
         in if length allPositions < 2 then False else neighbours_within allPositions))"

text \<open>
  The score of one candidate.  \<open>result.similarity\<close> is missing on the rows of the fallback
  search; arithmetic on \<open>undefined\<close> gives \<open>NaN\<close>, which is \<open>None\<close> here, and \<open>NaN >= x\<close> is
  false.
\<close>

definition rerank_score ::
  "(string \<Rightarrow> string) \<Rightarrow> GetKnowledgeParams \<Rightarrow> string \<Rightarrow> RAGKnowledgeItem \<Rightarrow> real option" where
  "rerank_score u params processedQuery result =
     (let queryTerms = getQueryTerms u processedQuery;
          matchingTerms = filter (\<lambda>term. str_includes (toLowerCase u (c_text (k_content result))) term)
                            queryTerms
      in if length matchingTerms > 0 then
           (let boosted = map_option (\<lambda>s. s * (1 + (real (length matchingTerms)
                                                      / real (length queryTerms)) * 2))
                            (k_similarity result)
            in if hasProximityMatch u (c_text (k_content result)) matchingTerms
               then map_option (\<lambda>s. s * (3 / 2)) boosted else boosted)
         else if \<not> truthy_str (gp_conversationContext params)
              then map_option (\<lambda>s. s * (3 / 10)) (k_similarity result)
         else k_similarity result)"

text \<open>
  Sort by falling score (a stable sort; candidates without a score are put last, where
  JavaScript leaves their place open), keep the scores at or above the threshold, cut at
  the limit.  The two fields added for debugging (\<open>score\<close>, \<open>matchedTerms\<close>) are not kept.
\<close>

definition rerank ::
  "(string \<Rightarrow> string) \<Rightarrow> GetKnowledgeParams \<Rightarrow> string \<Rightarrow> RAGKnowledgeItem list
     \<Rightarrow> RAGKnowledgeItem list" where
  "rerank u params processedQuery results =
     (let score = rerank_score u params processedQuery;
          rerankedResults = sort_key (\<lambda>r. - the (score r)) (filter (\<lambda>r. score r \<noteq> None) results)
                            @ filter (\<lambda>r. score r = None) results
      in take (if truthy_nat (gp_limit params) then the (gp_limit params) else defaultRAGMatchCount)
           (filter (\<lambda>r. sql_ge (score r) defaultRAGMatchThreshold) rerankedResults))"

text \<open>The text that is embedded and the parameters of the store search.\<close>

definition search_text :: "Env \<Rightarrow> GetKnowledgeParams \<Rightarrow> string" where
  "search_text env params =
     (let processedQuery = preprocess (env_lower env) (regex_replace env) (the (gp_query params)) in
      if truthy_str (gp_conversationContext params)
      then preprocess (env_lower env) (regex_replace env) (the (gp_conversationContext params)) @ '' '' @ processedQuery
      else processedQuery)"

definition adapter_search_params :: "Env \<Rightarrow> GetKnowledgeParams \<Rightarrow> real list \<Rightarrow> SearchParams" where
  "adapter_search_params env params embedding =
     \<lparr>sp_agentId = agentId env, sp_embedding = embedding,
      sp_match_threshold = defaultRAGMatchThreshold,
      sp_match_count = (if truthy_nat (gp_limit params) then the (gp_limit params)
                        else defaultRAGMatchCount) * 2,
      sp_searchText = Some (preprocess (env_lower env) (regex_replace env) (the (gp_query params))),
      sp_userId = (if truthy_str (gp_userId params) then gp_userId params else currentUserId env)\<rparr>"

text \<open>
  The semantic search of \<open>getKnowledge\<close>, the \<open>try\<close> block with its \<open>catch\<close>: any throw is
  logged and the empty list returned.
\<close>

definition semantic_search ::
  "Env \<Rightarrow> 's Adapter \<Rightarrow> GetKnowledgeParams \<Rightarrow> 's \<Rightarrow> (js_error + RAGKnowledgeItem list) \<times> 's" where
  "semantic_search env adapter params st =
     (case embed env (search_text env params) of
        Inl e \<Rightarrow> (Inr [], st)
      | Inr embeddingArray \<Rightarrow>
          (case db_searchKnowledge adapter (adapter_search_params env params embeddingArray) st of
             (Inl e, st') \<Rightarrow> (Inr [], st')
           | (Inr results, st') \<Rightarrow>
               (Inr (rerank (env_lower env) params (preprocess (env_lower env) (regex_replace env) (the (gp_query params))) results),
                st')))"

text \<open>
  \<open>getKnowledge\<close>: the direct lookup by id, outside the \<open>try\<close>, returns on a hit; then the
  semantic search when a query is given; otherwise the empty list.
\<close>

definition direct_params :: "Env \<Rightarrow> GetKnowledgeParams \<Rightarrow> AdapterGetParams" where
  "direct_params env params =
     \<lparr>g_id = gp_id params,
      g_agentId = (if truthy_str (gp_agentId params) then the (gp_agentId params) else agentId env),
      g_userId = (if truthy_str (gp_userId params) then gp_userId params else currentUserId env)\<rparr>"

definition getKnowledge ::
  "Env \<Rightarrow> 's Adapter \<Rightarrow> GetKnowledgeParams \<Rightarrow> 's \<Rightarrow> (js_error + RAGKnowledgeItem list) \<times> 's" where
  "getKnowledge env adapter params st =
     (let query_part = (\<lambda>s. if truthy_str (gp_query params) then semantic_search env adapter params s
                             else (Inr [], s))
      in if truthy_str (gp_id params) then
           (case db_getKnowledge adapter (direct_params env params) st of
              (Inl e, st') \<Rightarrow> (Inl e, st')
            | (Inr directResults, st') \<Rightarrow>
                if length directResults > 0 then (Inr directResults, st') else query_part st')
         else query_part st)"

definition ex_failing_env :: Env where
  "ex_failing_env = ex_env\<lparr>embed := (\<lambda>s. Inl (JsError None (Some ''embedding service down'')))\<rparr>"

definition ex_query :: GetKnowledgeParams where
  "ex_query = \<lparr>gp_query = Some ''what is foo'', gp_id = None, gp_conversationContext = None,
     gp_limit = Some 5, gp_agentId = None, gp_userId = None\<rparr>"

definition ex_adapter :: "Db Adapter" where
  "ex_adapter = \<lparr>db_getKnowledge = (\<lambda>g db. (Inr [], db)),
     db_searchKnowledge = searchKnowledge ex_engine no_refusal\<rparr>"

section \<open>A tenant partition and its migration\<close>

text \<open>
  A partition is a set of named tables.  A table has its columns in declaration order,
  each with its \<open>NOT NULL\<close> and \<open>PRIMARY KEY\<close> marks, and its rows, each a list of values
  in column order.  The values of \<open>goals\<close> are texts or \<open>NULL\<close>.
\<close>

datatype sqlval = Null | Text string

record Column =
  col_name :: string
  col_notnull :: bool
  col_pk :: bool

record Table =
  t_columns :: "Column list"
  t_rows :: "sqlval list list"

type_synonym partition = "string \<Rightarrow> Table option"

definition DEFAULT_UUID :: UUID where
  "DEFAULT_UUID = ''00000000-0000-0000-0000-000000000000''"

definition sql_error :: "string \<Rightarrow> js_error" where
  "sql_error msg = JsError (Some ''SQLITE_ERROR'') (Some msg)"

text \<open>The value of a row in the column of a given name.\<close>

fun field :: "Column list \<Rightarrow> sqlval list \<Rightarrow> string \<Rightarrow> sqlval option" where
  "field (c # cs) (v # vs) name = (if col_name c = name then Some v else field cs vs name)"
| "field cs vs name = None"

text \<open>
  \<open>ALTER TABLE t ADD COLUMN c\<close>: the column is appended after the existing ones and is
  \<open>NULL\<close> in every existing row.  Column names are compared without regard to ASCII case.
\<close>

definition alter_add_column :: "string \<Rightarrow> Column \<Rightarrow> partition \<Rightarrow> js_error + partition" where
  "alter_add_column tbl c db =
     (case db tbl of
        None \<Rightarrow> Inl (sql_error (''no such table: '' @ tbl))
      | Some T \<Rightarrow>
          if sql_lower (col_name c) \<in> set (map (\<lambda>x. sql_lower (col_name x)) (t_columns T))
          then Inl (sql_error (''duplicate column name: '' @ col_name c))
          else Inr (db(tbl \<mapsto> T\<lparr>t_columns := t_columns T @ [c],
                                   t_rows := map (\<lambda>r. r @ [Null]) (t_rows T)\<rparr>)))"

text \<open>\<open>UPDATE t SET c = v WHERE c IS NULL\<close>.\<close>

fun set_if_null :: "Column list \<Rightarrow> string \<Rightarrow> sqlval \<Rightarrow> sqlval list \<Rightarrow> sqlval list" where
  "set_if_null (c # cs) name v (x # xs) =
     (if col_name c = name then (if x = Null then v else x) # xs
      else x # set_if_null cs name v xs)"
| "set_if_null cs name v xs = xs"

definition update_where_null :: "string \<Rightarrow> string \<Rightarrow> sqlval \<Rightarrow> partition \<Rightarrow> js_error + partition" where
  "update_where_null tbl name v db =
     (case db tbl of
        None \<Rightarrow> Inl (sql_error (''no such table: '' @ tbl))
      | Some T \<Rightarrow>
          if name \<notin> set (map col_name (t_columns T))
          then Inl (sql_error (''no such column: '' @ name))
          else Inr (db(tbl \<mapsto> T\<lparr>t_rows := map (set_if_null (t_columns T) name v) (t_rows T)\<rparr>)))"

definition create_table :: "string \<Rightarrow> Column list \<Rightarrow> partition \<Rightarrow> js_error + partition" where
  "create_table tbl cs db =
     (case db tbl of
        Some T \<Rightarrow> Inl (sql_error (''table '' @ tbl @ '' already exists''))
      | None \<Rightarrow> Inr (db(tbl \<mapsto> \<lparr>t_columns = cs, t_rows = []\<rparr>)))"

text \<open>
  \<open>INSERT INTO dst SELECT * FROM src\<close>: the source rows are taken as they are, value by
  position.  The statement is refused when the column counts differ, when a value bound
  for a \<open>NOT NULL\<close> column is \<open>NULL\<close>, or when the primary key would repeat; a refused
  statement inserts nothing.
\<close>

definition pk_values :: "Column list \<Rightarrow> sqlval list \<Rightarrow> sqlval list" where
  "pk_values cs r = map snd (filter (\<lambda>p. col_pk (fst p)) (zip cs r))"

definition violates_notnull :: "Column list \<Rightarrow> sqlval list \<Rightarrow> bool" where
  "violates_notnull cs r = list_ex (\<lambda>p. col_notnull (fst p) \<and> snd p = Null) (zip cs r)"

definition insert_select_star :: "string \<Rightarrow> string \<Rightarrow> partition \<Rightarrow> js_error + partition" where
  "insert_select_star dst src db =
     (case (db dst, db src) of
        (Some D, Some S) \<Rightarrow>
          if length (t_columns D) \<noteq> length (t_columns S)
          then Inl (sql_error (''table '' @ dst @ '' has a different number of columns''))
          else if list_ex (violates_notnull (t_columns D)) (t_rows S)
          then Inl (JsError (Some ''SQLITE_CONSTRAINT_NOTNULL'') (Some ''NOT NULL constraint failed''))
          else if list_ex (\<lambda>c. col_pk c) (t_columns D)
                  \<and> \<not> distinct (map (pk_values (t_columns D)) (t_rows D @ t_rows S))
          then Inl (JsError (Some ''SQLITE_CONSTRAINT_PRIMARYKEY'') (Some ''UNIQUE constraint failed''))
          else Inr (db(dst \<mapsto> D\<lparr>t_rows := t_rows D @ t_rows S\<rparr>))
      | _ \<Rightarrow> Inl (sql_error ''no such table''))"

definition drop_table :: "string \<Rightarrow> partition \<Rightarrow> js_error + partition" where
  "drop_table tbl db =
     (case db tbl of
        None \<Rightarrow> Inl (sql_error (''no such table: '' @ tbl))
      | Some T \<Rightarrow> Inr (db(tbl := None)))"

definition rename_table :: "string \<Rightarrow> string \<Rightarrow> partition \<Rightarrow> js_error + partition" where
  "rename_table old new db =
     (case db old of
        None \<Rightarrow> Inl (sql_error (''no such table: '' @ old))
      | Some T \<Rightarrow>
          (case db new of
             Some N \<Rightarrow> Inl (sql_error (''there is already another table or index with this name: '' @ new))
           | None \<Rightarrow> Inr ((db(old := None))(new \<mapsto> T))))"

text \<open>
  \<open>db.exec\<close> of a script: the statements run one after the other, each committed on its
  own; the first refused statement throws and what ran before it stays.
\<close>

fun exec :: "(partition \<Rightarrow> js_error + partition) list \<Rightarrow> partition \<Rightarrow> (js_error + unit) \<times> partition" where
  "exec [] db = (Inr (), db)"
| "exec (s # ss) db = (case s db of Inl e \<Rightarrow> (Inl e, db) | Inr db' \<Rightarrow> exec ss db')"

text \<open>The schema of \<open>goals_new\<close>, as the migration creates it.\<close>

definition goals_new_columns :: "Column list" where
  "goals_new_columns =
     [\<lparr>col_name = ''id'', col_notnull = False, col_pk = True\<rparr>,
      \<lparr>col_name = ''roomId'', col_notnull = True, col_pk = False\<rparr>,
      \<lparr>col_name = ''userId'', col_notnull = True, col_pk = False\<rparr>,
      \<lparr>col_name = ''agentId'', col_notnull = True, col_pk = False\<rparr>,
      \<lparr>col_name = ''name'', col_notnull = True, col_pk = False\<rparr>,
      \<lparr>col_name = ''status'', col_notnull = True, col_pk = False\<rparr>,
      \<lparr>col_name = ''objectives'', col_notnull = True, col_pk = False\<rparr>]"

text \<open>
  \<open>migrateGoalsTable\<close>: \<open>PRAGMA table_info(goals)\<close> lists the t_columns (none when the table
  is missing); without a column named exactly \<open>agentId\<close> the two scripts run; the \<open>catch\<close>
  logs and rethrows.
\<close>

definition migrateGoalsTable :: "partition \<Rightarrow> (js_error + unit) \<times> partition" where
  "migrateGoalsTable db =
     (let tableInfo = (case db ''goals'' of None \<Rightarrow> [] | Some T \<Rightarrow> map col_name (t_columns T));
          hasAgentId = list_ex (\<lambda>name. name = ''agentId'') tableInfo
      in if \<not> hasAgentId then
           (case exec [alter_add_column ''goals''
                         \<lparr>col_name = ''agentId'', col_notnull = False, col_pk = False\<rparr>,
                       update_where_null ''goals'' ''agentId'' (Text DEFAULT_UUID)] db of
              (Inl e, db1) \<Rightarrow> (Inl e, db1)
            | (Inr u, db1) \<Rightarrow>
                exec [create_table ''goals_new'' goals_new_columns,
                      insert_select_star ''goals_new'' ''goals'',
                      drop_table ''goals'',
                      rename_table ''goals_new'' ''goals''] db1)
         else (Inr (), db))"

text \<open>
  A partition written before \<open>agentId\<close> existed: \<open>goals\<close> has the six columns that
  \<open>createGoal\<close> still names, and one goal.
\<close>

definition old_goals_columns :: "Column list" where
  "old_goals_columns =
     [\<lparr>col_name = ''id'', col_notnull = False, col_pk = True\<rparr>,
      \<lparr>col_name = ''roomId'', col_notnull = True, col_pk = False\<rparr>,
      \<lparr>col_name = ''userId'', col_notnull = True, col_pk = False\<rparr>,
      \<lparr>col_name = ''name'', col_notnull = True, col_pk = False\<rparr>,
      \<lparr>col_name = ''status'', col_notnull = True, col_pk = False\<rparr>,
      \<lparr>col_name = ''objectives'', col_notnull = True, col_pk = False\<rparr>]"

definition ex_goal :: "sqlval list" where
  "ex_goal = [Text ''g1'', Text ''r1'', Text ''u1'', Text ''Win'', Text ''IN_PROGRESS'', Text ''[]'']"

definition ex_partition :: partition where
  "ex_partition = Map.empty(''goals'' \<mapsto> \<lparr>t_columns = old_goals_columns, t_rows = [ex_goal]\<rparr>)"

definition ex_migrated_goal :: "sqlval list" where
  "ex_migrated_goal = [Text ''g1'', Text ''r1'', Text ''u1'', Text ''Win'', Text ''IN_PROGRESS'',
     Text ''[]'', Text DEFAULT_UUID]"

section \<open>Properties of deletion\<close>





lemma ex_rows_simps:
  "r_id ex_main = ''m''" "r_id ex_chunk = ''m-chunk-0''" "r_id ex_other = ''x''"
  "json_originalId ex_main = None" "json_originalId ex_chunk = Some ''m''"
  "json_originalId ex_other = None"
  "ex_main \<noteq> ex_chunk" "ex_chunk \<noteq> ex_main" "ex_main \<noteq> ex_other" "ex_other \<noteq> ex_main"
  "ex_chunk \<noteq> ex_other" "ex_other \<noteq> ex_chunk"
  by (simp_all add: ex_main_def ex_chunk_def ex_other_def json_originalId_def metadata_of_def
      empty_metadata_def)


section \<open>Shared rows and clearing\<close>

lemma on_partition_table:
  "user_knowledge (snd (on_partition db f st)) db = snd (f (user_knowledge st db))"
  by (simp add: on_partition_def split: prod.splits)

lemma knowledge_row_shared:
  assumes "truthy (md_isShared (metadata_of (k_content k)))"
  shows "r_agentId (knowledge_row now k) = None \<and> r_isShared (knowledge_row now k) = 1"
  using assms by (simp add: knowledge_row_def Let_def)

lemma knowledge_row_inv:
  "r_isShared (knowledge_row now k) = 1 \<longrightarrow> r_agentId (knowledge_row now k) = None"
  by (simp add: knowledge_row_def Let_def)

lemma createKnowledge_stores:
  "snd (createKnowledge now k t)
   = (if k_id k \<in> set (map r_id t) then t else t @ [knowledge_row now k])"
  by (simp add: createKnowledge_def transaction_def sql_insert_def Let_def knowledge_row_def)

lemma createKnowledge_fresh:
  assumes "k_id k \<notin> set (map r_id t)"
  shows "createKnowledge now k t = (Inr (), t @ [knowledge_row now k])"
  using assms
  by (simp add: createKnowledge_def transaction_def sql_insert_def Let_def knowledge_row_def)

lemma createKnowledge_shared_returns:
  assumes "truthy (md_isShared (metadata_of (k_content k)))"
  shows "fst (createKnowledge now k t) = Inr ()"
  using assms
  by (simp add: createKnowledge_def transaction_def sql_insert_def Let_def pk_error_def
      knowledge_row_def)

lemma createKnowledge_shared_inv:
  assumes "shared_inv t"
  shows "shared_inv (snd (createKnowledge now k t))"
  using assms knowledge_row_inv [of now k]
  by (simp add: createKnowledge_stores shared_inv_def)

lemma clearKnowledge_exact:
  "clearKnowledge fails a False t
   = (case fails 0 of
        None \<Rightarrow> (Inr (), filter (\<lambda>r. r_agentId r \<noteq> Some a) t)
      | Some e \<Rightarrow> (Inl e, t))"
  by (simp add: clearKnowledge_def run_stmt_def sql_delete_def split: option.splits)

lemma clearKnowledge_keeps_unowned:
  assumes "r \<in> set t" and "r_agentId r = None"
  shows "r \<in> set (snd (clearKnowledge fails a False t))"
  using assms by (simp add: clearKnowledge_exact split: option.splits)

lemma clearKnowledge_keeps_shared:
  assumes "shared_inv t" and "r \<in> set t" and "r_isShared r = 1"
  shows "r \<in> set (snd (clearKnowledge fails a False t))"
proof -
  have "r_agentId r = None"
    using assms by (auto simp: shared_inv_def list_all_iff)
  with assms(2) show ?thesis by (rule clearKnowledge_keeps_unowned)
qed

text \<open>
  C10.  The row built from an item whose \<open>content.metadata.isShared\<close> is set has a \<open>NULL\<close>
  owner and \<open>isShared = 1\<close>, and carries the item's id and content.  \<open>createKnowledge\<close>
  appends exactly that row when the id is new and leaves the table as it is otherwise; it
  returns normally when the id is new and whenever the item is shared.  So the empty table
  satisfies ``a row with \<open>isShared = 1\<close> has no owner'' and every \<open>createKnowledge\<close> call
  keeps it.  \<open>clearKnowledge\<close> without the shared flag removes exactly the rows whose
  \<open>agentId\<close> is the given id (or nothing, when its statement is refused); hence a shared
  item just stored survives it for every agent id, and so does every shared row of a
  table that satisfies the invariant, in the base adapter and in a resolved partition of
  the multi-user one.
\<close>

theorem clearKnowledge_keeps_shared_items:
  "(truthy (md_isShared (metadata_of (k_content k))) \<longrightarrow>
      r_agentId (knowledge_row now k) = None \<and> r_isShared (knowledge_row now k) = 1)
   \<and> r_id (knowledge_row now k) = k_id k \<and> r_content (knowledge_row now k) = k_content k
   \<and> snd (createKnowledge now k t)
       = (if k_id k \<in> set (map r_id t) then t else t @ [knowledge_row now k])
   \<and> (k_id k \<notin> set (map r_id t) \<or> truthy (md_isShared (metadata_of (k_content k))) \<longrightarrow>
        fst (createKnowledge now k t) = Inr ())
   \<and> shared_inv []
   \<and> (shared_inv t \<longrightarrow> shared_inv (snd (createKnowledge now k t)))
   \<and> clearKnowledge fails a False t
       = (case fails 0 of
            None \<Rightarrow> (Inr (), filter (\<lambda>r. r_agentId r \<noteq> Some a) t)
          | Some e \<Rightarrow> (Inl e, t))
   \<and> (truthy (md_isShared (metadata_of (k_content k))) \<and> k_id k \<notin> set (map r_id t) \<longrightarrow>
        knowledge_row now k
          \<in> set (snd (clearKnowledge fails a False (snd (createKnowledge now k t)))))
   \<and> (shared_inv t \<and> r \<in> set t \<and> r_isShared r = 1 \<longrightarrow>
        r \<in> set (snd (clearKnowledge fails a False t)))
   \<and> (shared_inv (user_knowledge st db) \<and> r \<in> set (user_knowledge st db) \<and> r_isShared r = 1
        \<and> u \<noteq> [] \<and> resolve u = Inr db \<longrightarrow>
        r \<in> set (user_knowledge (snd (mu_clearKnowledge resolve fails a False (Some u) st)) db))"
proof (intro conjI impI)
  assume "truthy (md_isShared (metadata_of (k_content k)))"
  then show "r_agentId (knowledge_row now k) = None" "r_isShared (knowledge_row now k) = 1"
    using knowledge_row_shared by simp_all
next
  show "r_id (knowledge_row now k) = k_id k" "r_content (knowledge_row now k) = k_content k"
    by (simp_all add: knowledge_row_def Let_def)
next
  show "snd (createKnowledge now k t)
       = (if k_id k \<in> set (map r_id t) then t else t @ [knowledge_row now k])"
    by (rule createKnowledge_stores)
next
  assume "k_id k \<notin> set (map r_id t) \<or> truthy (md_isShared (metadata_of (k_content k)))"
  then show "fst (createKnowledge now k t) = Inr ()"
  proof
    assume "k_id k \<notin> set (map r_id t)"
    then show ?thesis by (simp add: createKnowledge_fresh)
  next
    assume "truthy (md_isShared (metadata_of (k_content k)))"
    then show ?thesis by (rule createKnowledge_shared_returns)
  qed
next
  show "shared_inv []" by (simp add: shared_inv_def)
next
  assume "shared_inv t"
  then show "shared_inv (snd (createKnowledge now k t))" by (rule createKnowledge_shared_inv)
next
  show "clearKnowledge fails a False t
       = (case fails 0 of
            None \<Rightarrow> (Inr (), filter (\<lambda>r. r_agentId r \<noteq> Some a) t)
          | Some e \<Rightarrow> (Inl e, t))"
    by (rule clearKnowledge_exact)
next
  assume a: "truthy (md_isShared (metadata_of (k_content k))) \<and> k_id k \<notin> set (map r_id t)"
  then have "knowledge_row now k \<in> set (snd (createKnowledge now k t))"
    by (simp add: createKnowledge_fresh)
  moreover have "r_agentId (knowledge_row now k) = None"
    using a knowledge_row_shared by blast
  ultimately show "knowledge_row now k
          \<in> set (snd (clearKnowledge fails a False (snd (createKnowledge now k t))))"
    by (rule clearKnowledge_keeps_unowned)
next
  assume "shared_inv t \<and> r \<in> set t \<and> r_isShared r = 1"
  then show "r \<in> set (snd (clearKnowledge fails a False t))"
    using clearKnowledge_keeps_shared by blast
next
  assume a: "shared_inv (user_knowledge st db) \<and> r \<in> set (user_knowledge st db) \<and> r_isShared r = 1
        \<and> u \<noteq> [] \<and> resolve u = Inr db"
  then have "r \<in> set (snd (clearKnowledge fails a False (user_knowledge st db)))"
    using clearKnowledge_keeps_shared by blast
  then show "r \<in> set (user_knowledge (snd (mu_clearKnowledge resolve fails a False (Some u) st)) db)"
    using a
    by (simp add: mu_clearKnowledge_def executeUserQuery_def truthy_str_def on_partition_table)
qed

lemma ex_rows_cols:
  "r_agentId ex_main = Some ''a''" "r_agentId ex_chunk = Some ''a''" "r_agentId ex_other = None"
  "r_isShared ex_main = 0" "r_isShared ex_chunk = 0" "r_isShared ex_other = 1"
  by (simp_all add: ex_main_def ex_chunk_def ex_other_def)

lemma ex_shared_row:
  "knowledge_row 5 ex_shared_item = ex_shared_stored"
  by (simp add: knowledge_row_def ex_shared_item_def ex_shared_stored_def Let_def metadata_of_def
      empty_metadata_def truthy_def truthy_str_def)

theorem clearKnowledge_keeps_shared_items_witness:
  "createKnowledge 5 ex_shared_item [ex_main, ex_chunk, ex_other]
     = (Inr (), [ex_main, ex_chunk, ex_other, ex_shared_stored])
   \<and> r_agentId ex_shared_stored = None \<and> r_isShared ex_shared_stored = 1
   \<and> clearKnowledge (\<lambda>k. None) ''a'' False [ex_main, ex_chunk, ex_other, ex_shared_stored]
     = (Inr (), [ex_other, ex_shared_stored])
   \<and> ex_other \<in> set (user_knowledge (snd (mu_clearKnowledge (\<lambda>u. Inr ''user_u1'') (\<lambda>k. None) ''a''
        False (Some ''u1'')
        \<lparr>main_knowledge = [], user_knowledge = (\<lambda>d. [ex_main, ex_chunk, ex_other])\<rparr>)) ''user_u1'')"
proof -
  have s: "truthy (md_isShared (metadata_of (k_content ex_shared_item)))"
    by (simp add: ex_shared_item_def metadata_of_def empty_metadata_def truthy_def)
  have f: "k_id ex_shared_item \<notin> set (map r_id [ex_main, ex_chunk, ex_other])"
    by (simp add: ex_shared_item_def ex_rows_simps)
  have i: "shared_inv [ex_main, ex_chunk, ex_other]"
    by (simp add: shared_inv_def ex_rows_cols)
  have c: "r_agentId ex_shared_stored = None" "r_isShared ex_shared_stored = 1"
    by (simp_all add: ex_shared_stored_def)
  note w1 = clearKnowledge_keeps_shared_items [where k = ex_shared_item and now = 5
      and t = "[ex_main, ex_chunk, ex_other]" and r = ex_other and fails = "\<lambda>k. None"
      and a = "''a''" and u = "''u1''" and resolve = "\<lambda>u. Inr ''user_u1''" and db = "''user_u1''"
      and st = "\<lparr>main_knowledge = [], user_knowledge = (\<lambda>d. [ex_main, ex_chunk, ex_other])\<rparr>"]
  note w2 = clearKnowledge_keeps_shared_items [where k = ex_shared_item and now = 5
      and t = "[ex_main, ex_chunk, ex_other, ex_shared_stored]" and r = ex_shared_stored
      and fails = "\<lambda>k. None" and a = "''a''" and u = "''u1''" and resolve = "\<lambda>u. Inr ''user_u1''"
      and db = "''user_u1''"
      and st = "\<lparr>main_knowledge = [], user_knowledge = (\<lambda>d. [ex_main, ex_chunk, ex_other])\<rparr>"]
  have create: "createKnowledge 5 ex_shared_item [ex_main, ex_chunk, ex_other]
     = (Inr (), [ex_main, ex_chunk, ex_other, ex_shared_stored])"
    using w1 s f by (simp add: prod_eq_iff ex_shared_row)
  have clear: "clearKnowledge (\<lambda>k. None) ''a'' False [ex_main, ex_chunk, ex_other, ex_shared_stored]
     = (Inr (), [ex_other, ex_shared_stored])"
    using w2 by (simp add: ex_rows_cols c)
  have part: "ex_other \<in> set (user_knowledge (snd (mu_clearKnowledge (\<lambda>u. Inr ''user_u1'')
        (\<lambda>k. None) ''a'' False (Some ''u1'')
        \<lparr>main_knowledge = [], user_knowledge = (\<lambda>d. [ex_main, ex_chunk, ex_other])\<rparr>)) ''user_u1'')"
    using w1 i by (simp add: ex_rows_cols)
  from create c clear part show ?thesis by simp
qed

section \<open>Re-ingesting a shared file\<close>

lemma createKnowledge_shared:
  assumes "truthy (md_isShared (metadata_of (k_content k)))"
  shows "createKnowledge now k t
         = (Inr (), if k_id k \<in> set (map r_id t) then t else t @ [knowledge_row now k])"
  using assms
  by (simp add: createKnowledge_def transaction_def sql_insert_def Let_def pk_error_def
      knowledge_row_def)

lemma chunk_item_shared:
  "truthy (f_isShared file) \<Longrightarrow>
   truthy (md_isShared (metadata_of (k_content
     (file_chunk_item env now file cp fid index chunk v))))"
  by (simp add: file_chunk_item_def metadata_of_def)

lemma main_item_shared:
  "truthy (f_isShared file) \<Longrightarrow>
   truthy (md_isShared (metadata_of (k_content (file_main_item env now file cp fid txt v))))"
  by (simp add: file_main_item_def metadata_of_def)

lemma chunk_item_id [simp]: "k_id (file_chunk_item env now file cp fid index chunk v) = chunkId fid index"
  by (simp add: file_chunk_item_def)

lemma main_item_id [simp]: "k_id (file_main_item env now file cp fid txt v) = fid"
  by (simp add: file_main_item_def)

lemma knowledge_row_id [simp]: "r_id (knowledge_row now k) = k_id k"
  by (simp add: knowledge_row_def Let_def)

lemma chunk_ids_Suc: "chunk_ids fid index (Suc n) = chunkId fid index # chunk_ids fid (Suc index) n"
  by (simp add: chunk_ids_def upt_rec)

lemma store_chunks_shared:
  assumes "truthy (f_isShared file)" and "list_all (\<lambda>c. is_ok (embed env c)) chunks"
  shows "fst (store_chunks env clock file cp fid index chunks t) = Inr ()
       \<and> set (map r_id (snd (store_chunks env clock file cp fid index chunks t)))
           = set (map r_id t) \<union> set (chunk_ids fid index (length chunks))
       \<and> (distinct (map r_id t) \<longrightarrow>
            distinct (map r_id (snd (store_chunks env clock file cp fid index chunks t))))
       \<and> (set (chunk_ids fid index (length chunks)) \<subseteq> set (map r_id t) \<longrightarrow>
            snd (store_chunks env clock file cp fid index chunks t) = t)"
  using assms(2)
proof (induction chunks arbitrary: index t)
  case Nil
  then show ?case by (simp add: chunk_ids_def)
next
  case (Cons chunk chunks)
  from Cons.prems obtain v where v: "embed env chunk = Inr v"
    by (cases "embed env chunk") (auto simp: is_ok_def)
  let ?k = "file_chunk_item env (clock (Suc index)) file cp fid index chunk v"
  let ?t1 = "if chunkId fid index \<in> set (map r_id t) then t
             else t @ [knowledge_row (clock (Suc index)) ?k]"
  have ck: "createKnowledge (clock (Suc index)) ?k t = (Inr (), ?t1)"
    using createKnowledge_shared [OF chunk_item_shared [OF assms(1)]] by simp
  have step: "store_chunks env clock file cp fid index (chunk # chunks) t
              = store_chunks env clock file cp fid (Suc index) chunks ?t1"
    by (simp add: v ck)
  have ih: "fst (store_chunks env clock file cp fid (Suc index) chunks ?t1) = Inr ()
       \<and> set (map r_id (snd (store_chunks env clock file cp fid (Suc index) chunks ?t1)))
           = set (map r_id ?t1) \<union> set (chunk_ids fid (Suc index) (length chunks))
       \<and> (distinct (map r_id ?t1) \<longrightarrow>
            distinct (map r_id (snd (store_chunks env clock file cp fid (Suc index) chunks ?t1))))
       \<and> (set (chunk_ids fid (Suc index) (length chunks)) \<subseteq> set (map r_id ?t1) \<longrightarrow>
            snd (store_chunks env clock file cp fid (Suc index) chunks ?t1) = ?t1)"
    using Cons.IH [of "Suc index" ?t1] Cons.prems by simp
  have ids1: "set (map r_id ?t1) = insert (chunkId fid index) (set (map r_id t))"
    by auto
  have d1: "distinct (map r_id t) \<Longrightarrow> distinct (map r_id ?t1)"
    by auto
  have same: "chunkId fid index \<in> set (map r_id t) \<Longrightarrow> ?t1 = t"
    by simp
  show ?case
    unfolding step
  proof (intro conjI impI)
    show "fst (store_chunks env clock file cp fid (Suc index) chunks ?t1) = Inr ()"
      using ih by blast
    show "set (map r_id (snd (store_chunks env clock file cp fid (Suc index) chunks ?t1)))
          = set (map r_id t) \<union> set (chunk_ids fid index (length (chunk # chunks)))"
      using ih ids1 by (simp add: chunk_ids_Suc del: set_map)
    show "distinct (map r_id (snd (store_chunks env clock file cp fid (Suc index) chunks ?t1)))"
      if "distinct (map r_id t)"
      using ih d1 [OF that] by blast
    show "snd (store_chunks env clock file cp fid (Suc index) chunks ?t1) = t"
      if "set (chunk_ids fid index (length (chunk # chunks))) \<subseteq> set (map r_id t)"
    proof -
      from that have a: "chunkId fid index \<in> set (map r_id t)"
        and b: "set (chunk_ids fid (Suc index) (length chunks)) \<subseteq> set (map r_id t)"
        by (simp_all add: chunk_ids_Suc del: set_map)
      from same [OF a] b ih show ?thesis by simp
    qed
  qed
qed

lemma file_id_embed [simp]: "file_id (env\<lparr>embed := e2\<rparr>) file = file_id env file"
  by (simp add: file_id_def generateScopedId_def)

lemma processFile_shared:
  assumes "truthy (f_isShared file)"
    and "splitChunks env (f_content file) 512 20 = Inr chunks"
    and "embeds_ok (embed env) file chunks"
  shows "fst (processFile env clock file t) = Inr ()
       \<and> set (map r_id (snd (processFile env clock file t)))
           = set (map r_id t) \<union> set (file_id env file # chunk_ids (file_id env file) 0 (length chunks))
       \<and> (distinct (map r_id t) \<longrightarrow> distinct (map r_id (snd (processFile env clock file t))))
       \<and> (set (file_id env file # chunk_ids (file_id env file) 0 (length chunks))
              \<subseteq> set (map r_id t) \<longrightarrow>
            snd (processFile env clock file t) = t)"
proof -
  let ?fid = "file_id env file"
  let ?cp = "cleanPath (f_path file)"
  from assms(3) obtain v where v: "embed env (take 8192 (f_content file)) = Inr v"
    by (cases "embed env (take 8192 (f_content file))") (auto simp: embeds_ok_def is_ok_def)
  from assms(3) have ch: "list_all (\<lambda>c. is_ok (embed env c)) chunks"
    by (simp add: embeds_ok_def)
  let ?k = "file_main_item env (clock 0) file ?cp ?fid (f_content file) v"
  let ?t1 = "if ?fid \<in> set (map r_id t) then t else t @ [knowledge_row (clock 0) ?k]"
  have ck: "createKnowledge (clock 0) ?k t = (Inr (), ?t1)"
    using createKnowledge_shared [OF main_item_shared [OF assms(1)]] by simp
  have tr: "processFile_try env clock file t = store_chunks env clock file ?cp ?fid 0 chunks ?t1"
    using v ck assms(2) by (simp add: processFile_try_def Let_def file_id_def)
  note sc = store_chunks_shared [OF assms(1) ch, of clock ?cp ?fid 0 ?t1]
  have pf: "processFile env clock file t = (Inr (), snd (store_chunks env clock file ?cp ?fid 0 chunks ?t1))"
  proof -
    obtain r t' where st: "store_chunks env clock file ?cp ?fid 0 chunks ?t1 = (r, t')"
      by (cases "store_chunks env clock file ?cp ?fid 0 chunks ?t1")
    have "r = Inr ()" using sc [THEN conjunct1] st by simp
    then show ?thesis
      unfolding processFile_def tr st by simp
  qed
  have ids1: "set (map r_id ?t1) = insert ?fid (set (map r_id t))"
    by auto
  have d1: "distinct (map r_id t) \<Longrightarrow> distinct (map r_id ?t1)"
    by auto
  show ?thesis
    unfolding pf fst_conv snd_conv
  proof (intro conjI impI)
    show "Inr () = Inr ()" by simp
    show "set (map r_id (snd (store_chunks env clock file ?cp ?fid 0 chunks ?t1)))
          = set (map r_id t) \<union> set (?fid # chunk_ids ?fid 0 (length chunks))"
      using sc ids1 by (simp del: set_map)
    show "distinct (map r_id (snd (store_chunks env clock file ?cp ?fid 0 chunks ?t1)))"
      if "distinct (map r_id t)"
      using sc d1 [OF that] by blast
    show "snd (store_chunks env clock file ?cp ?fid 0 chunks ?t1) = t"
      if "set (?fid # chunk_ids ?fid 0 (length chunks)) \<subseteq> set (map r_id t)"
    proof -
      from that have a: "?fid \<in> set (map r_id t)"
        and b: "set (chunk_ids ?fid 0 (length chunks)) \<subseteq> set (map r_id t)"
        by (simp_all del: set_map)
      from a have "?t1 = t" by simp
      with b sc show ?thesis by simp
    qed
  qed
qed

lemma count_distinct_key:
  assumes "distinct (map f xs)" and "x \<in> set (map f xs)"
  shows "length (filter (\<lambda>r. f r = x) xs) = 1"
  using assms
proof (induction xs)
  case Nil
  then show ?case by simp
next
  case (Cons a xs)
  show ?case
  proof (cases "f a = x")
    case True
    with Cons.prems have "x \<notin> set (map f xs)" by auto
    then have "filter (\<lambda>r. f r = x) xs = []" by (auto simp: filter_empty_conv)
    with True show ?thesis by simp
  next
    case False
    with Cons show ?thesis by auto
  qed
qed

text \<open>
  C3.  Let a shared file be ingested into a table with unique ids, with every embedding
  call succeeding.  The call returns normally.  Ingesting the same file again, at other
  clock readings and with whatever vectors the embedding then returns, derives the same
  main id and the same chunk ids (they are functions of the path, the shared flag and the
  chunk's position), also returns normally, and leaves the table exactly as the first run
  left it: the duplicate-key errors of the inserts are swallowed.  The table holds exactly one row with the main id and exactly one
  row with each chunk id, and its ids are unique.
\<close>

theorem processFile_shared_idempotent:
  assumes "truthy (f_isShared file)"
    and "splitChunks env (f_content file) 512 20 = Inr chunks"
    and "embeds_ok (embed env) file chunks"
    and "embeds_ok embed2 file chunks"
    and "distinct (map r_id t)"
    and "processFile env clock file t = (res, t1)"
  shows "res = Inr ()
       \<and> file_id (env\<lparr>embed := embed2\<rparr>) file = file_id env file
       \<and> processFile (env\<lparr>embed := embed2\<rparr>) clock2 file t1 = (Inr (), t1)
       \<and> distinct (map r_id t1)
       \<and> length (filter (\<lambda>r. r_id r = file_id env file) t1) = 1
       \<and> list_all (\<lambda>i. length (filter (\<lambda>r. r_id r = i) t1) = 1)
            (chunk_ids (file_id env file) 0 (length chunks))"
proof -
  note first = processFile_shared [OF assms(1-3), of clock t]
  have res: "res = Inr ()" and t1: "snd (processFile env clock file t) = t1"
    using first assms(6) by simp_all
  have ids: "set (map r_id t1)
             = set (map r_id t) \<union> set (file_id env file # chunk_ids (file_id env file) 0 (length chunks))"
    using first t1 by simp
  have d: "distinct (map r_id t1)"
    using first t1 assms(5) by auto
  have sp2: "splitChunks (env\<lparr>embed := embed2\<rparr>) (f_content file) 512 20 = Inr chunks"
    using assms(2) by simp
  have e2: "embeds_ok (embed (env\<lparr>embed := embed2\<rparr>)) file chunks"
    using assms(4) by simp
  note second = processFile_shared [OF assms(1) sp2 e2, of clock2 t1]
  have sub: "set (file_id env file # chunk_ids (file_id env file) 0 (length chunks)) \<subseteq> set (map r_id t1)"
    using ids by blast
  have "processFile (env\<lparr>embed := embed2\<rparr>) clock2 file t1 = (Inr (), t1)"
    using second sub by (simp add: prod_eq_iff)
  moreover have "length (filter (\<lambda>r. r_id r = file_id env file) t1) = 1"
    using sub by (intro count_distinct_key [OF d]) simp
  moreover have "list_all (\<lambda>i. length (filter (\<lambda>r. r_id r = i) t1) = 1)
            (chunk_ids (file_id env file) 0 (length chunks))"
    unfolding list_all_iff
  proof
    fix i assume "i \<in> set (chunk_ids (file_id env file) 0 (length chunks))"
    with sub have "i \<in> set (map r_id t1)" by auto
    then show "length (filter (\<lambda>r. r_id r = i) t1) = 1"
      by (rule count_distinct_key [OF d])
  qed
  ultimately show ?thesis using res d by simp
qed

lemma ex_file_ingest:
  "map r_id (snd (processFile ex_env (\<lambda>k. 7) ex_file [])) = [''shared-a.md'', ''shared-a.md-chunk-0'']"
  by (simp add: processFile_def processFile_try_def ex_env_def ex_file_def Let_def
      createKnowledge_def transaction_def sql_insert_def knowledge_row_def file_main_item_def
      file_chunk_item_def generateScopedId_def cleanPath_def chunkId_def truthy_def
      metadata_of_def string_of_nat.simps digit_char_def)

theorem processFile_shared_idempotent_witness:
  "processFile (ex_env\<lparr>embed := (\<lambda>s. Inr [0])\<rparr>) (\<lambda>k. 9) ex_file
       (snd (processFile ex_env (\<lambda>k. 7) ex_file []))
     = (Inr (), snd (processFile ex_env (\<lambda>k. 7) ex_file []))
   \<and> length (filter (\<lambda>r. r_id r = ''shared-a.md'')
        (snd (processFile ex_env (\<lambda>k. 7) ex_file []))) = 1
   \<and> length (filter (\<lambda>r. r_id r = ''shared-a.md-chunk-0'')
        (snd (processFile ex_env (\<lambda>k. 7) ex_file []))) = 1"
proof -
  have h1: "truthy (f_isShared ex_file)" by (simp add: ex_file_def truthy_def)
  have h2: "splitChunks ex_env (f_content ex_file) 512 20 = Inr [''# Title'']"
    by (simp add: ex_env_def ex_file_def)
  have h3: "embeds_ok (embed ex_env) ex_file [''# Title'']"
    by (simp add: embeds_ok_def ex_env_def is_ok_def)
  have h4: "embeds_ok (\<lambda>s. Inr [0]) ex_file [''# Title'']"
    by (simp add: embeds_ok_def is_ok_def)
  have h5: "distinct (map r_id ([] :: knowledge_table))" by simp
  have h6: "processFile ex_env (\<lambda>k. 7) ex_file []
            = (fst (processFile ex_env (\<lambda>k. 7) ex_file []), snd (processFile ex_env (\<lambda>k. 7) ex_file []))"
    by simp
  have fid: "file_id ex_env ex_file = ''shared-a.md''"
    by (simp add: file_id_def generateScopedId_def ex_env_def ex_file_def cleanPath_def truthy_def)
  have cid: "chunk_ids ''shared-a.md'' 0 (Suc 0) = [''shared-a.md-chunk-0'']"
    by (simp add: chunk_ids_def chunkId_def string_of_nat.simps digit_char_def)
  show ?thesis
    using processFile_shared_idempotent [OF h1 h2 h3 h4 h5 h6, of "\<lambda>k. 9"]
    by (simp add: fid cid)
qed

section \<open>What ingestion embeds\<close>

lemma ascii_lower_not_upper:
  "\<not> (65 \<le> (of_char (ascii_lower c) :: nat) \<and> (of_char (ascii_lower c) :: nat) \<le> 90)"
proof (cases "65 \<le> (of_char c :: nat) \<and> (of_char c :: nat) \<le> 90")
  case True
  then have "(of_char (ascii_lower c) :: nat) = ((of_char c :: nat) + 32) mod 256"
    by (simp add: ascii_lower_def)
  also have "\<dots> = (of_char c :: nat) + 32"
    using True by simp
  finally show ?thesis using True by simp
next
  case False
  then show ?thesis by (simp add: ascii_lower_def)
qed

lemma preprocess_case_folded:
  assumes "c \<in> set (preprocess u replace content)"
  shows "\<not> (65 \<le> (of_char c :: nat) \<and> (of_char c :: nat) \<le> 90)"
proof (cases "content = []")
  case True
  with assms show ?thesis by (simp add: preprocess_def)
next
  case False
  with assms obtain d where "c = ascii_lower d"
    by (auto simp: preprocess_def toLowerCase_def)
  then show ?thesis using ascii_lower_not_upper by simp
qed

lemma preprocess_neq_Title: "preprocess u replace content \<noteq> ''# Title''"
proof
  assume "preprocess u replace content = ''# Title''"
  then have "CHR ''T'' \<in> set (preprocess u replace content)" by simp
  from preprocess_case_folded [OF this] show False by simp
qed

lemma chunkId_0: "chunkId fid 0 = fid @ ''-chunk-0''"
  by (simp add: chunkId_def string_of_nat.simps digit_char_def)

text \<open>
  C5, at the file \<open>a.md\<close> with content \<open># Title\<close>.  \<open>processFile\<close> hands the raw content
  to the embedding call and to the chunker: for every embedding function \<open>e\<close>, the main
  row and the chunk row carry \<open>e\<close> of \<open># Title\<close>, and their text is \<open># Title\<close>.  That string
  is not an output of \<open>preprocess\<close>, whatever the regular-expression engine does and
  whatever \<open>toLowerCase\<close> does beyond ASCII, because \<open>preprocess\<close> ends in \<open>toLowerCase\<close>.  The item path \<open>createKnowledge\<close> of the same manager
  embeds and chunks \<open>preprocess\<close> of the text.
\<close>

theorem processFile_embeds_raw_text:
  "map (\<lambda>r. (c_text (r_content r), r_embedding r))
       (snd (processFile (ex_env\<lparr>embed := (\<lambda>s. Inr (e s))\<rparr>) (\<lambda>k. 7) ex_file []))
     = [(''# Title'', Some (e ''# Title'')), (''# Title'', Some (e ''# Title''))]
   \<and> preprocess u replace content \<noteq> ''# Title''
   \<and> map (\<lambda>r. (c_text (r_content r), r_embedding r))
       (snd (mgr_createKnowledge
          (ex_env\<lparr>embed := (\<lambda>s. Inr (e s)), regex_replace := replace, env_lower := u\<rparr>)
          (\<lambda>k. 7) ex_item []))
     = [(''# Title'', Some (e (preprocess u replace ''# Title''))),
        (preprocess u replace ''# Title'', Some (e (preprocess u replace ''# Title'')))]"
proof (intro conjI)
  show "map (\<lambda>r. (c_text (r_content r), r_embedding r))
       (snd (processFile (ex_env\<lparr>embed := (\<lambda>s. Inr (e s))\<rparr>) (\<lambda>k. 7) ex_file []))
     = [(''# Title'', Some (e ''# Title'')), (''# Title'', Some (e ''# Title''))]"
    by (simp add: processFile_def processFile_try_def ex_env_def ex_file_def Let_def
        createKnowledge_def transaction_def sql_insert_def knowledge_row_def file_main_item_def
        file_chunk_item_def generateScopedId_def cleanPath_def chunkId_0 truthy_def
        metadata_of_def)
  show "preprocess u replace content \<noteq> ''# Title''"
    by (rule preprocess_neq_Title)
  show "map (\<lambda>r. (c_text (r_content r), r_embedding r))
       (snd (mgr_createKnowledge
          (ex_env\<lparr>embed := (\<lambda>s. Inr (e s)), regex_replace := replace, env_lower := u\<rparr>)
          (\<lambda>k. 7) ex_item []))
     = [(''# Title'', Some (e (preprocess u replace ''# Title''))),
        (preprocess u replace ''# Title'', Some (e (preprocess u replace ''# Title'')))]"
    by (simp add: mgr_createKnowledge_def ex_env_def ex_item_def Let_def
        createKnowledge_def transaction_def sql_insert_def knowledge_row_def chunkId_0 truthy_def
        metadata_of_def empty_metadata_def)
qed

section \<open>The fallback search\<close>

lemma msg_no_such_function:
  "msg_includes no_such_function ''no such function: vec_distance_L2''"
  by (simp add: msg_includes_def no_such_function_def)











lemma ex_json:
  "json_isMain ex_main" "\<not> json_isMain ex_chunk" "json_isMain ex_other"
  "\<not> json_isChunk ex_main" "json_isChunk ex_chunk" "\<not> json_isChunk ex_other"
  "json_isMain ex_far" "\<not> json_isChunk ex_far" "json_isMain ex_recent"
  by (simp_all add: ex_main_def ex_chunk_def ex_other_def ex_far_def ex_recent_def json_isMain_def
      json_isChunk_def metadata_of_def empty_metadata_def truthy_def)







section \<open>The search cache\<close>




text \<open>
  An error of the hybrid statement other than the missing function is logged and
  swallowed: the search returns the empty list and writes nothing to the cache.  It
  happens on the concrete store, where a shared row has a \<open>NULL\<close> embedding on which the
  distance function raises.
\<close>

lemma searchKnowledge_swallows:
  assumes "fails GetCache = None"
    and "\<not> truthy_str (cache db (cacheKey p, sp_agentId p))"
    and "run_hybrid eng fails p (knowledge db) = Inl e"
    and "\<not> msg_includes e ''no such function: vec_distance_L2''"
  shows "searchKnowledge eng fails p db = (Inr [], db)"
  using assms
  by (simp add: searchKnowledge_def hybrid_attempt_def run_stmt_def getCache_def Let_def)

lemma ex_swallowed:
  "searchKnowledge ex_engine no_refusal ex_params ex_db = (Inr [], ex_db)"
proof -
  have h: "run_hybrid ex_engine no_refusal ex_params (knowledge ex_db)
           = Inl (JsError (Some ''SQLITE_ERROR'') (Some ''vector is NULL''))"
    by (simp add: run_hybrid_def ex_engine_def no_refusal_def ex_db_def in_vector_scores_def
        is_shared_row_def ex_main_def ex_chunk_def ex_other_def ex_recent_def ex_foreign_def
        ex_params_def ex_vec_def)
  have m: "\<not> msg_includes (JsError (Some ''SQLITE_ERROR'') (Some ''vector is NULL''))
             ''no such function: vec_distance_L2''"
    by (simp add: msg_includes_def)
  show ?thesis
    by (rule searchKnowledge_swallows [where fails = no_refusal, OF _ _ h m])
       (simp_all add: no_refusal_def ex_db_def truthy_str_def)
qed




section \<open>The hybrid search\<close>

lemma hybrid_rows_subset:
  "set (hybrid_rows vdist u p t)
   \<subseteq> set (filter (\<lambda>r. in_vector_scores (sp_agentId p) r \<and> hybrid_where vdist u p r) t)"
proof -
  have "set (hybrid_rows vdist u p t)
        \<subseteq> set (order_by_score_desc (combined_score vdist u p)
             (filter (\<lambda>r. in_vector_scores (sp_agentId p) r \<and> hybrid_where vdist u p r) t))"
    unfolding hybrid_rows_def by (rule set_take_subset)
  then show ?thesis by (auto simp: order_by_score_desc_def)
qed

lemma hybrid_rows_owned_ok:
  assumes "r \<in> set (hybrid_rows vdist u p t)" and "\<not> is_shared_row r"
  shows "spec_candidate_ok vdist u p r"
  using hybrid_rows_subset [of vdist u p t] assms
  by (auto simp: hybrid_where_def spec_candidate_ok_def)

lemma ex_total_distance: "total_distance ex_vec = ex_dist"
  by (rule ext, rule ext)
     (simp add: total_distance_def ex_vec_def ex_dist_def split: option.splits)

lemma ex_far_scores:
  "vector_score ex_dist (sp_embedding ex_params) ex_far = Some (1 / 10)"
  "keyword_score (\<lambda>s. s) (sp_searchText ex_params) ex_far = 6 / 5"
proof -
  show "vector_score ex_dist (sp_embedding ex_params) ex_far = Some (1 / 10)"
    by (simp add: vector_score_def ex_dist_def ex_params_def ex_far_def)
  have "\<not> sql_like (like_pattern (\<lambda>s. s) (Some ''zebra'')) (sql_lower (c_text (r_content ex_far)))"
    by (simp add: like_pattern_def toLowerCase_def sql_lower_def ascii_lower_def ex_far_def
        char_of_eq_iff)
  then show "keyword_score (\<lambda>s. s) (sp_searchText ex_params) ex_far = 6 / 5"
    by (simp add: keyword_score_def ex_params_def ex_json)
qed

text \<open>
  C4, at a table that holds one shared main item whose embedding is at distance 9 from
  the query (similarity 1/10) and whose text does not contain the query \<open>zebra\<close>, with the
  default threshold 0.85.  The hybrid search returns the item, with combined score
  \<open>1/10 * 6/5\<close>, although its similarity is below the threshold and below 0.3: the
  \<open>WHERE\<close> clause lets every shared row through.
\<close>

theorem searchKnowledge_shared_below_threshold:
  "fst (searchKnowledge ex_engine no_refusal ex_params
          \<lparr>knowledge = [ex_far], cache = (\<lambda>k. None)\<rparr>)
     = Inr [row_item ex_engine (Some (3 / 25)) ex_far]
   \<and> vector_score ex_dist (sp_embedding ex_params) ex_far = Some (1 / 10)
   \<and> keyword_score (\<lambda>s. s) (sp_searchText ex_params) ex_far = 6 / 5
   \<and> \<not> spec_candidate_ok ex_dist (\<lambda>s. s) ex_params ex_far"
proof -
  have sh: "is_shared_row ex_far"
    by (simp add: is_shared_row_def ex_far_def)
  have iv: "in_vector_scores (sp_agentId ex_params) ex_far"
    using sh by (simp add: in_vector_scores_def)
  have w: "in_vector_scores (sp_agentId ex_params) ex_far
           \<and> hybrid_where ex_dist (\<lambda>s. s) ex_params ex_far"
    using sh by (simp add: in_vector_scores_def hybrid_where_def)
  have cs: "combined_score ex_dist (\<lambda>s. s) ex_params ex_far = Some (3 / 25)"
    by (simp add: combined_score_def ex_far_scores)
  have mc: "sp_match_count ex_params = 16"
    by (simp add: ex_params_def)
  have csn: "(combined_score ex_dist (\<lambda>s. s) ex_params ex_far = None) = False"
    "(\<exists>y. combined_score ex_dist (\<lambda>s. s) ex_params ex_far = Some y) = True"
    using cs by (simp, blast)
  have rows: "hybrid_rows ex_dist (\<lambda>s. s) ex_params [ex_far] = [ex_far]"
    by (simp add: hybrid_rows_def order_by_score_desc_def csn w mc)
  have ev: "ex_vec (r_embedding ex_far) (sp_embedding ex_params) = Inr (Some 9)"
    by (simp add: ex_vec_def ex_dist_def ex_far_def ex_params_def)
  have run: "run_hybrid ex_engine no_refusal ex_params [ex_far] = Inr [(ex_far, Some (3 / 25))]"
    unfolding run_hybrid_def
    by (simp add: ex_engine_def no_refusal_def iv ev ex_total_distance rows cs)
  have "fst (searchKnowledge ex_engine no_refusal ex_params
          \<lparr>knowledge = [ex_far], cache = (\<lambda>k. None)\<rparr>)
     = Inr [row_item ex_engine (Some (3 / 25)) ex_far]"
    by (simp add: searchKnowledge_def hybrid_attempt_def run_stmt_def no_refusal_def Let_def
        getCache_def truthy_str_def run)
  moreover have "\<not> spec_candidate_ok ex_dist (\<lambda>s. s) ex_params ex_far"
  proof -
    have th: "sp_match_threshold ex_params = 17 / 20"
      by (simp add: ex_params_def)
    show ?thesis
      by (simp add: spec_candidate_ok_def ex_far_scores sql_ge_def th)
  qed
  ultimately show ?thesis using ex_far_scores by simp
qed

section \<open>The uniqueness flag of a memory\<close>

lemma memory_order_desc_length: "length (memory_order_desc score ms) = length ms"
proof (induction ms)
  case Nil
  then show ?case by (simp add: memory_order_desc_def)
next
  case (Cons m ms)
  then show ?case by (cases "score m") (simp_all add: memory_order_desc_def)
qed

lemma first_error_total: "first_error (map (\<lambda>x. Inr (f x)) xs) = None"
  by (induction xs) simp_all

lemma searchMemoriesByEmbedding_empty_iff:
  assumes "mp_count params = Some 1"
    and "vec_distance_L2 eng = map_option (\<lambda>d e q. Inr (d e q)) vd"
  shows "\<exists>ms. searchMemoriesByEmbedding eng embedding params t = Inr ms
           \<and> (ms = [] \<longleftrightarrow> filter (memory_where params) t = [])"
proof (cases vd)
  case None
  have "take (Suc 0) (sort_key (\<lambda>m. - m_createdAt m) (filter (memory_where params) t)) = []
        \<longleftrightarrow> filter (memory_where params) t = []"
    by (simp add: take_eq_Nil del: One_nat_def) (metis length_0_conv length_sort)
  then show ?thesis
    using None assms msg_no_such_function
    by (simp add: searchMemoriesByEmbedding_def truthy_nat_def)
next
  case (Some d)
  let ?ms = "memory_order_desc (\<lambda>m. total_distance (\<lambda>e q. Inr (d e q)) (m_embedding m) embedding)
               (filter (memory_where params) t)"
  have "length ?ms = length (filter (memory_where params) t)"
    by (rule memory_order_desc_length)
  then have "take (Suc 0) ?ms = [] \<longleftrightarrow> filter (memory_where params) t = []"
    by (simp add: take_eq_Nil del: One_nat_def) (metis length_0_conv)
  then show ?thesis
    using Some assms
    by (simp add: searchMemoriesByEmbedding_def truthy_nat_def Let_def first_error_total)
qed

text \<open>
  C6, at a store holding one memory of table \<open>messages\<close>, agent \<open>a\<close>, room \<open>r\<close> with embedding
  \<open>(1, 0)\<close>, and a new memory of the same table, agent and room with the orthogonal
  embedding \<open>(0, 1)\<close>.  Whatever distance function the engine has (one that answers on
  every argument), and also when it has none, \<open>createMemory\<close> writes the new memory with
  \<open>unique = 0\<close>: the search it relies on returns any stored memory of the table, agent and
  room and never compares a similarity with the \<open>match_threshold\<close> it was given.
\<close>

theorem createMemory_unique_ignores_similarity:
  "createMemory (ex_engine\<lparr>vec_distance_L2 := map_option (\<lambda>d e q. Inr (d e q)) vd\<rparr>) 5 ''fresh''
       ex_new_memory ''messages'' [ex_stored_memory]
     = (Inr (), [ex_stored_memory,
          \<lparr>m_id = ''m2'', m_type = ''messages'', m_content = ''goodbye'',
           m_embedding = Some [0, 1], m_userId = Some ''u'', m_roomId = Some ''r'',
           m_agentId = Some ''a'', m_unique = 0, m_createdAt = 2\<rparr>])"
proof -
  let ?params = "\<lparr>mp_match_threshold = Some (95 / 100), mp_count = Some 1,
      mp_roomId = Some (mem_roomId ex_new_memory), mp_agentId = mem_agentId ex_new_memory,
      mp_unique = None, mp_tableName = ''messages''\<rparr>"
  let ?eng = "ex_engine\<lparr>vec_distance_L2 := map_option (\<lambda>d e q. Inr (d e q)) vd\<rparr>"
  have w: "filter (memory_where ?params) [ex_stored_memory] = [ex_stored_memory]"
    by (simp add: memory_where_def ex_stored_memory_def ex_new_memory_def truthy_def
        truthy_str_def)
  have "\<exists>ms. searchMemoriesByEmbedding ?eng [0, 1] ?params [ex_stored_memory] = Inr ms
           \<and> (ms = [] \<longleftrightarrow> filter (memory_where ?params) [ex_stored_memory] = [])"
    by (rule searchMemoriesByEmbedding_empty_iff [where vd = vd]) simp_all
  then obtain ms where ms: "searchMemoriesByEmbedding ?eng [0, 1] ?params [ex_stored_memory] = Inr ms"
    and ne: "ms \<noteq> []"
    using w by auto
  have emb: "mem_embedding ex_new_memory = Some [0, 1]"
    by (simp add: ex_new_memory_def)
  show ?thesis
    unfolding createMemory_def emb
    using ms ne
    by (simp add: insert_or_replace_def Let_def)
       (simp add: ex_new_memory_def ex_stored_memory_def)
qed

section \<open>Retrieval does not raise\<close>

lemma semantic_search_ok: "is_ok (fst (semantic_search env adapter params st))"
  by (simp add: semantic_search_def is_ok_def split: sum.splits prod.splits)

lemma semantic_search_embed_fails:
  assumes "\<not> is_ok (embed env (search_text env params))"
  shows "fst (semantic_search env adapter params st) = Inr []"
  using assms by (simp add: semantic_search_def is_ok_def split: sum.splits)

lemma semantic_search_store_fails:
  assumes "embed env (search_text env params) = Inr v"
    and "\<not> is_ok (fst (db_searchKnowledge adapter (adapter_search_params env params v) st))"
  shows "fst (semantic_search env adapter params st) = Inr []"
proof -
  obtain r st' where r: "db_searchKnowledge adapter (adapter_search_params env params v) st = (r, st')"
    by (cases "db_searchKnowledge adapter (adapter_search_params env params v) st")
  with assms(2) obtain e where "r = Inl e"
    by (cases r) (simp_all add: is_ok_def)
  with r assms(1) show ?thesis
    by (simp add: semantic_search_def)
qed

lemma getKnowledge_direct_ok:
  assumes "is_ok (fst (db_getKnowledge adapter (direct_params env params) st))"
  shows "is_ok (fst (getKnowledge env adapter params st))"
proof -
  obtain r st' where r: "db_getKnowledge adapter (direct_params env params) st = (r, st')"
    by (cases "db_getKnowledge adapter (direct_params env params) st")
  with assms obtain directResults where d: "r = Inr directResults"
    by (cases r) (simp_all add: is_ok_def)
  show ?thesis
    using semantic_search_ok [of env adapter params st]
      semantic_search_ok [of env adapter params st']
    by (simp add: getKnowledge_def Let_def r d) (simp add: is_ok_def)
qed

lemma getKnowledge_no_id_ok:
  assumes "\<not> truthy_str (gp_id params)"
  shows "is_ok (fst (getKnowledge env adapter params st))"
  using assms semantic_search_ok [of env adapter params st]
  by (simp add: getKnowledge_def Let_def is_ok_def)

text \<open>
  C7.  \<open>getKnowledge\<close> returns a list and never an error whenever no direct lookup by id
  is requested, which is every call made of a query text, an optional conversation
  context, a limit and a tenant, whatever the embedding function and the store do; the
  same holds with an id whose direct lookup returns.  (The direct lookup is the one call
  outside the \<open>try\<close>.)  Without an id, when the embedding call throws, or when it succeeds
  and the store search throws, the list is empty.  The store is asked for twice the limit
  (twice 8 without a limit).
\<close>

theorem getKnowledge_never_raises:
  "(\<not> truthy_str (gp_id params)
      \<or> is_ok (fst (db_getKnowledge adapter (direct_params env params) st)) \<longrightarrow>
      is_ok (fst (getKnowledge env adapter params st)))
   \<and> (\<not> truthy_str (gp_id params) \<and> truthy_str (gp_query params)
        \<and> (\<not> is_ok (embed env (search_text env params))
            \<or> (\<exists>v. embed env (search_text env params) = Inr v
                    \<and> \<not> is_ok (fst (db_searchKnowledge adapter
                                       (adapter_search_params env params v) st)))) \<longrightarrow>
        fst (getKnowledge env adapter params st) = Inr [])
   \<and> sp_match_count (adapter_search_params env params v')
       = 2 * (if truthy_nat (gp_limit params) then the (gp_limit params) else 8)"
proof (intro conjI impI)
  assume "\<not> truthy_str (gp_id params)
      \<or> is_ok (fst (db_getKnowledge adapter (direct_params env params) st))"
  then show "is_ok (fst (getKnowledge env adapter params st))"
  proof
    assume "\<not> truthy_str (gp_id params)"
    then show ?thesis by (rule getKnowledge_no_id_ok)
  next
    assume "is_ok (fst (db_getKnowledge adapter (direct_params env params) st))"
    then show ?thesis by (rule getKnowledge_direct_ok)
  qed
next
  assume a: "\<not> truthy_str (gp_id params) \<and> truthy_str (gp_query params)
        \<and> (\<not> is_ok (embed env (search_text env params))
            \<or> (\<exists>v. embed env (search_text env params) = Inr v
                    \<and> \<not> is_ok (fst (db_searchKnowledge adapter
                                       (adapter_search_params env params v) st))))"
  then consider "\<not> is_ok (embed env (search_text env params))"
    | v where "embed env (search_text env params) = Inr v"
        "\<not> is_ok (fst (db_searchKnowledge adapter (adapter_search_params env params v) st))"
    by blast
  then have "fst (semantic_search env adapter params st) = Inr []"
  proof cases
    case 1
    then show ?thesis by (rule semantic_search_embed_fails)
  next
    case 2
    then show ?thesis by (rule semantic_search_store_fails)
  qed
  then show "fst (getKnowledge env adapter params st) = Inr []"
    using a by (simp add: getKnowledge_def Let_def)
next
  show "sp_match_count (adapter_search_params env params v')
           = 2 * (if truthy_nat (gp_limit params) then the (gp_limit params) else 8)"
    by (simp add: adapter_search_params_def defaultRAGMatchCount_def)
qed

theorem getKnowledge_never_raises_witness:
  "fst (getKnowledge ex_failing_env ex_adapter ex_query ex_db) = Inr []
   \<and> sp_match_count (adapter_search_params ex_failing_env ex_query [0]) = 10"
proof -
  have h: "\<not> truthy_str (gp_id ex_query)"
    by (simp add: ex_query_def truthy_str_def)
  have q: "truthy_str (gp_query ex_query)"
    by (simp add: ex_query_def truthy_str_def)
  have e: "\<not> is_ok (embed ex_failing_env (search_text ex_failing_env ex_query))"
    by (simp add: ex_failing_env_def is_ok_def)
  have l: "truthy_nat (gp_limit ex_query)" "the (gp_limit ex_query) = 5"
    by (simp_all add: ex_query_def truthy_nat_def)
  show ?thesis
    using getKnowledge_never_raises [where params = ex_query and env = ex_failing_env
        and adapter = ex_adapter and st = ex_db and v' = "[0]"] h q e
    by (simp add: l)
qed

section \<open>Migrating the goals table\<close>

lemma ex_partition_migrated:
  "migrateGoalsTable ex_partition
   = (Inr (), Map.empty(''goals'' \<mapsto> \<lparr>t_columns = goals_new_columns, t_rows = [ex_migrated_goal]\<rparr>))"
proof -
  let ?T0 = "\<lparr>t_columns = old_goals_columns, t_rows = [ex_goal]\<rparr>"
  let ?agent = "\<lparr>col_name = ''agentId'', col_notnull = False, col_pk = False\<rparr>"
  let ?T1 = "\<lparr>t_columns = old_goals_columns @ [?agent], t_rows = [ex_goal @ [Null]]\<rparr>"
  let ?T2 = "\<lparr>t_columns = old_goals_columns @ [?agent], t_rows = [ex_migrated_goal]\<rparr>"
  let ?db1 = "Map.empty(''goals'' \<mapsto> ?T1)"
  let ?db2 = "Map.empty(''goals'' \<mapsto> ?T2)"
  let ?db3 = "?db2(''goals_new'' \<mapsto> \<lparr>t_columns = goals_new_columns, t_rows = []\<rparr>)"
  let ?db4 = "?db2(''goals_new'' \<mapsto> \<lparr>t_columns = goals_new_columns, t_rows = [ex_migrated_goal]\<rparr>)"
  have info: "\<not> list_ex (\<lambda>name. name = ''agentId'') (map col_name old_goals_columns)"
    by (simp add: old_goals_columns_def)
  have s1: "alter_add_column ''goals'' ?agent ex_partition = Inr ?db1"
    by (simp add: alter_add_column_def ex_partition_def old_goals_columns_def sql_lower_def
        ascii_lower_def char_of_eq_iff)
  have s2: "update_where_null ''goals'' ''agentId'' (Text DEFAULT_UUID) ?db1 = Inr ?db2"
    by (simp add: update_where_null_def old_goals_columns_def ex_goal_def ex_migrated_goal_def)
  have s3: "create_table ''goals_new'' goals_new_columns ?db2 = Inr ?db3"
    by (simp add: create_table_def)
  have s4: "insert_select_star ''goals_new'' ''goals'' ?db3 = Inr ?db4"
    by (simp add: insert_select_star_def goals_new_columns_def old_goals_columns_def
        violates_notnull_def ex_migrated_goal_def pk_values_def)
  have s5: "drop_table ''goals'' ?db4
            = Inr (Map.empty(''goals_new'' \<mapsto> \<lparr>t_columns = goals_new_columns, t_rows = [ex_migrated_goal]\<rparr>))"
    by (simp add: drop_table_def fun_upd_twist)
  have s6: "rename_table ''goals_new'' ''goals''
              (Map.empty(''goals_new'' \<mapsto> \<lparr>t_columns = goals_new_columns, t_rows = [ex_migrated_goal]\<rparr>))
            = Inr (Map.empty(''goals'' \<mapsto> \<lparr>t_columns = goals_new_columns, t_rows = [ex_migrated_goal]\<rparr>))"
    by (simp add: rename_table_def)
  have e1: "exec [alter_add_column ''goals'' ?agent,
                  update_where_null ''goals'' ''agentId'' (Text DEFAULT_UUID)] ex_partition
            = (Inr (), ?db2)"
    by (simp add: s1 s2)
  have e2: "exec [create_table ''goals_new'' goals_new_columns,
                  insert_select_star ''goals_new'' ''goals'',
                  drop_table ''goals'',
                  rename_table ''goals_new'' ''goals''] ?db2
            = (Inr (), Map.empty(''goals'' \<mapsto> \<lparr>t_columns = goals_new_columns, t_rows = [ex_migrated_goal]\<rparr>))"
    by (simp add: s3 s4 s5 s6)
  have g: "ex_partition ''goals'' = Some ?T0"
    by (simp add: ex_partition_def)
  show ?thesis
    unfolding migrateGoalsTable_def Let_def g
    using info by (simp add: e1 e2 del: exec.simps)
qed

text \<open>
  C1, at a partition whose \<open>goals\<close> table has the six columns \<open>id, roomId, userId, name,
  status, objectives\<close> and one goal named \<open>Win\<close> with status \<open>IN_PROGRESS\<close>.  The migration
  returns normally and keeps the one row, but the copy into \<open>goals_new\<close> is by position:
  the added column is the last of the old table and the fourth of the new one.  After the
  migration the goal's \<open>agentId\<close> is \<open>Win\<close>, its \<open>name\<close> is \<open>IN_PROGRESS\<close>, its \<open>status\<close> is
  \<open>[]\<close>, and the default agent id sits in \<open>objectives\<close>.  Before it, \<open>name\<close> was \<open>Win\<close>.
  A second run changes nothing.
\<close>

theorem migrateGoalsTable_shifts_columns:
  "fst (migrateGoalsTable ex_partition) = Inr ()
   \<and> map_option t_rows (snd (migrateGoalsTable ex_partition) ''goals'') = Some [ex_migrated_goal]
   \<and> field goals_new_columns ex_migrated_goal ''agentId'' = Some (Text ''Win'')
   \<and> field goals_new_columns ex_migrated_goal ''name'' = Some (Text ''IN_PROGRESS'')
   \<and> field goals_new_columns ex_migrated_goal ''status'' = Some (Text ''[]'')
   \<and> field goals_new_columns ex_migrated_goal ''objectives'' = Some (Text DEFAULT_UUID)
   \<and> field old_goals_columns ex_goal ''name'' = Some (Text ''Win'')
   \<and> field old_goals_columns ex_goal ''status'' = Some (Text ''IN_PROGRESS'')
   \<and> migrateGoalsTable (snd (migrateGoalsTable ex_partition))
       = (Inr (), snd (migrateGoalsTable ex_partition))"
proof -
  have again: "migrateGoalsTable (Map.empty(''goals'' \<mapsto>
                  \<lparr>t_columns = goals_new_columns, t_rows = [ex_migrated_goal]\<rparr>))
               = (Inr (), Map.empty(''goals'' \<mapsto>
                  \<lparr>t_columns = goals_new_columns, t_rows = [ex_migrated_goal]\<rparr>))"
    by (simp add: migrateGoalsTable_def Let_def goals_new_columns_def)
  have f: "field goals_new_columns ex_migrated_goal ''agentId'' = Some (Text ''Win'')"
    "field goals_new_columns ex_migrated_goal ''name'' = Some (Text ''IN_PROGRESS'')"
    "field goals_new_columns ex_migrated_goal ''status'' = Some (Text ''[]'')"
    "field goals_new_columns ex_migrated_goal ''objectives'' = Some (Text DEFAULT_UUID)"
    "field old_goals_columns ex_goal ''name'' = Some (Text ''Win'')"
    "field old_goals_columns ex_goal ''status'' = Some (Text ''IN_PROGRESS'')"
    by (simp_all add: goals_new_columns_def old_goals_columns_def ex_migrated_goal_def ex_goal_def)
  show ?thesis
    by (simp add: ex_partition_migrated again f)
qed

end
